theory Spec2Isabelle
  imports Main "HOL-Library.Sublist"
begin

section \<open>Data model (communities/models)\<close>

text \<open>
  Users are identified by their primary key. The three tables of the store that the
  engine reads and writes are lists of rows; the shared TTL cache is a family of partial
  maps, one per key pattern (an entry is either present or absent; expiry is an entry
  disappearing). Counter cache fields are Python integers, so they are \<open>int\<close> here and
  their non-negativity is something to prove.
\<close>

datatype role = RoleMember | RoleModerator | RoleAdmin

datatype status = Pending | Approved | Rejected

datatype visibility = VisPublic | VisMembers | VisAdmin

record community =
  c_id :: nat
  name :: string
  slug :: string
  description :: string
  short_description :: string
  category :: string
  tags :: string
  rules :: string
  image :: "string option"
  banner :: "string option"
  creator_id :: nat
  is_private :: bool
  requires_approval :: bool
  member_count_cache :: int

record membership =
  m_user :: nat
  m_community :: nat
  m_role :: role
  m_status :: status

record post =
  p_id :: nat
  p_community :: nat
  p_visibility :: visibility
  p_upvotes :: "nat list"
  upvote_count_cache :: int

text \<open>What \<open>validate_post_creation\<close> stores under \<open>post_creation_permission:{c}:{u}\<close>:
  the string "denied" or the membership object.\<close>

datatype cached_permission = CachedDenied | CachedMembership membership

text \<open>
  Two writers share the key \<open>membership_status:{community}:{user}\<close>:
  \<open>toggle_post_upvote\<close> stores the boolean verdict of its membership query, and the
  view \<open>CommunityViewSet.membership_status\<close> stores the dictionary
  \<open>{'is_member', 'status', 'role'}\<close> it answers with. Both readers test the value for
  truthiness; a dictionary with three keys is truthy whatever it says.
\<close>

datatype cached_status = CachedVerdict bool | CachedStatusData bool "status option" "role option"

fun truthy :: "cached_status \<Rightarrow> bool" where
  "truthy (CachedVerdict b) = b"
| "truthy (CachedStatusData is_member st r) = True"

record state =
  communities :: "community list"
  memberships :: "membership list"
  posts :: "post list"
  cache_user_memberships :: "nat \<rightharpoonup> nat list"
  cache_user_admin_memberships :: "nat \<rightharpoonup> nat list"
  cache_membership_status :: "nat \<times> nat \<rightharpoonup> cached_status"
  cache_post_creation_permission :: "nat \<times> nat \<rightharpoonup> cached_permission"
  cache_community_is_member :: "nat \<times> nat \<rightharpoonup> bool"
  cache_community_membership_status :: "nat \<times> nat \<rightharpoonup> status"
  cache_community_membership_role :: "nat \<times> nat \<rightharpoonup> role"

text \<open>Exceptions that escape a service function.\<close>

datatype exn = MultipleObjectsReturned | RelatedObjectDoesNotExist | DatabaseError
  | PermissionDenied string

text \<open>The manager's \<open>get\<close>: exactly one matching row, or one of two exceptions.\<close>

datatype 'a get_result = DoesNotExist | MultipleObjects | Got 'a

definition objects_get :: "('a \<Rightarrow> bool) \<Rightarrow> 'a list \<Rightarrow> 'a get_result" where
  "objects_get P rows =
     (case filter P rows of
        [] \<Rightarrow> DoesNotExist
      | [r] \<Rightarrow> Got r
      | _ # _ # _ \<Rightarrow> MultipleObjects)"

text \<open>\<open>Meta.unique_together = ('user', 'community')\<close> on Membership.\<close>

definition unique_together :: "membership list \<Rightarrow> bool" where
  "unique_together rows = distinct (map (\<lambda>m. (m_user m, m_community m)) rows)"

fun replace1 :: "'a \<Rightarrow> 'a \<Rightarrow> 'a list \<Rightarrow> 'a list" where
  "replace1 old new [] = []"
| "replace1 old new (x # xs) = (if x = old then new # xs else x # replace1 old new xs)"

definition community_by_id :: "state \<Rightarrow> nat \<Rightarrow> community option" where
  "community_by_id s i = find (\<lambda>c. c_id c = i) (communities s)"

definition update_community_row :: "nat \<Rightarrow> (community \<Rightarrow> community) \<Rightarrow> state \<Rightarrow> state" where
  \<comment> \<open>\<open>Community.objects.filter(id=i).update(...)\<close>: no signal is sent.\<close>
  "update_community_row i f s =
     s\<lparr>communities := map (\<lambda>c. if c_id c = i then f c else c) (communities s)\<rparr>"

definition update_post_row :: "nat \<Rightarrow> (post \<Rightarrow> post) \<Rightarrow> state \<Rightarrow> state" where
  "update_post_row i f s =
     s\<lparr>posts := map (\<lambda>p. if p_id p = i then f p else p) (posts s)\<rparr>"

section \<open>Signals (communities/signals.py)\<close>

definition approved_count :: "state \<Rightarrow> nat \<Rightarrow> int" where
  \<comment> \<open>\<open>Membership.objects.filter(community=c, status='approved').count()\<close>\<close>
  "approved_count s cid =
     int (length (filter (\<lambda>m. m_community m = cid \<and> m_status m = Approved) (memberships s)))"

definition update_community_member_count :: "membership \<Rightarrow> state \<Rightarrow> state" where
  \<comment> \<open>receiver of post_save and post_delete of Membership\<close>
  "update_community_member_count instance s =
     (let s1 = update_community_row (m_community instance)
                 (\<lambda>c. c\<lparr>member_count_cache := approved_count s (m_community instance)\<rparr>) s
      in s1\<lparr>cache_membership_status :=
               (cache_membership_status s1)((m_community instance, m_user instance) := None),
             cache_post_creation_permission :=
               (cache_post_creation_permission s1)((m_community instance, m_user instance) := None)\<rparr>)"

definition update_post_upvote_count :: "nat \<Rightarrow> state \<Rightarrow> state" where
  \<comment> \<open>receiver of m2m_changed on Post.upvotes, actions post_add / post_remove / post_clear\<close>
  "update_post_upvote_count pid s =
     update_post_row pid (\<lambda>p. p\<lparr>upvote_count_cache := int (length (p_upvotes p))\<rparr>) s"

subsection \<open>Row operations that send the signals\<close>

definition membership_create :: "membership \<Rightarrow> state \<Rightarrow> state" where
  "membership_create m s = update_community_member_count m (s\<lparr>memberships := memberships s @ [m]\<rparr>)"

definition membership_delete :: "membership \<Rightarrow> state \<Rightarrow> state" where
  "membership_delete m s = update_community_member_count m (s\<lparr>memberships := remove1 m (memberships s)\<rparr>)"

definition membership_save :: "membership \<Rightarrow> membership \<Rightarrow> state \<Rightarrow> state" where
  \<comment> \<open>the row loaded as \<open>old\<close> is written back as \<open>new\<close>\<close>
  "membership_save old new s =
     update_community_member_count new (s\<lparr>memberships := replace1 old new (memberships s)\<rparr>)"

section \<open>CommunityService (services/community_service.py)\<close>

definition join_community :: "state \<Rightarrow> nat \<Rightarrow> community \<Rightarrow> (membership option \<times> string) \<times> state" where
  "join_community s user c =
     (if \<exists>m \<in> set (memberships s). m_user m = user \<and> m_community m = c_id c
      then ((None, ''You are already a member of this community.''), s)
      else if requires_approval c
      then (let m = \<lparr>m_user = user, m_community = c_id c, m_role = RoleMember, m_status = Pending\<rparr>
            in ((Some m, ''Join request submitted. An admin will review your request.''),
                membership_create m s))
      else (let m = \<lparr>m_user = user, m_community = c_id c, m_role = RoleMember, m_status = Approved\<rparr>
            in ((Some m, ''You have successfully joined this community.''),
                membership_create m s)))"

definition admin_count :: "state \<Rightarrow> nat \<Rightarrow> nat" where
  \<comment> \<open>\<open>Membership.objects.filter(community=c, role='admin').count()\<close>: the status is not filtered\<close>
  "admin_count s cid =
     length (filter (\<lambda>m. m_community m = cid \<and> m_role m = RoleAdmin) (memberships s))"

definition leave_cache_invalidation :: "nat \<Rightarrow> nat \<Rightarrow> state \<Rightarrow> state" where
  \<comment> \<open>\<open>cache.delete_many(user_cache_keys)\<close>, for the key patterns the state holds\<close>
  "leave_cache_invalidation cid user s =
     s\<lparr>cache_membership_status := (cache_membership_status s)((cid, user) := None),
       cache_post_creation_permission := (cache_post_creation_permission s)((cid, user) := None),
       cache_user_memberships := (cache_user_memberships s)(user := None),
       cache_user_admin_memberships := (cache_user_admin_memberships s)(user := None)\<rparr>"

definition leave_community :: "state \<Rightarrow> nat \<Rightarrow> community \<Rightarrow> (exn + bool \<times> string) \<times> state" where
  "leave_community s user c =
     (case objects_get (\<lambda>m. m_user m = user \<and> m_community m = c_id c) (memberships s) of
        DoesNotExist \<Rightarrow> (Inr (False, ''You are not a member of this community.''), s)
      | MultipleObjects \<Rightarrow> (Inl MultipleObjectsReturned, s)
      | Got m \<Rightarrow>
          if m_role m = RoleAdmin \<and> admin_count s (c_id c) = 1
          then (Inr (False, ''You cannot leave the community as you are the only admin. Please make another user an admin first.''), s)
          else
            (let s1 = membership_delete m s;
                 s2 = leave_cache_invalidation (c_id c) user s1;
                 s3 = (if member_count_cache c > 0
                       then update_community_row (c_id c)
                              (\<lambda>r. r\<lparr>member_count_cache := max 0 (member_count_cache c - 1)\<rparr>) s2
                       else s2)
             in (Inr (True, ''You have successfully left this community.''), s3)))"

definition parse_role :: "string \<Rightarrow> role option" where
  \<comment> \<open>\<open>Membership.ROLE_CHOICES\<close>\<close>
  "parse_role r =
     (if r = ''member'' then Some RoleMember
      else if r = ''moderator'' then Some RoleModerator
      else if r = ''admin'' then Some RoleAdmin
      else None)"

definition update_member_role ::
  "state \<Rightarrow> community \<Rightarrow> nat \<Rightarrow> string \<Rightarrow> nat \<Rightarrow> (exn + bool \<times> string) \<times> state" where
  "update_member_role s c user_id new_role current_user =
     (case parse_role new_role of
        None \<Rightarrow> (Inr (False, ''Invalid role. Must be one of: member, moderator, admin''), s)
      | Some r \<Rightarrow>
          (case objects_get (\<lambda>m. m_user m = user_id \<and> m_community m = c_id c) (memberships s) of
             DoesNotExist \<Rightarrow> (Inr (False, ''User is not a member of this community.''), s)
           | MultipleObjects \<Rightarrow> (Inl MultipleObjectsReturned, s)
           | Got m \<Rightarrow>
               if m_user m = current_user \<and> new_role \<noteq> ''admin'' \<and> admin_count s (c_id c) = 1
               then (Inr (False, ''You cannot change your role as you are the only admin.''), s)
               else (Inr (True, ''User role updated to '' @ new_role @ ''.''),
                     membership_save m (m\<lparr>m_role := r\<rparr>) s)))"


subsection \<open>The locked update\<close>









section \<open>PostService (services/post_service.py)\<close>

subsection \<open>The bulk post list\<close>

text \<open>
  \<open>get_post_queryset\<close> with \<open>post_type\<close> and \<open>search\<close> absent. The logging block of
  the slug branch reads and writes only a key of its own and is left out.
  \<open>Community.get_by_slug\<close> answers from a by-slug cache of the row; the reconciliation
  uses its id alone, which a row keeps for life, so it is the lookup in the table.
\<close>

definition post_community :: "state \<Rightarrow> post \<Rightarrow> community option" where
  "post_community s p = community_by_id s (p_community p)"

definition get_by_slug :: "state \<Rightarrow> string \<Rightarrow> community option" where
  "get_by_slug s sl = (if sl = [] then None else find (\<lambda>c. slug c = sl) (communities s))"

definition approved_member :: "state \<Rightarrow> nat \<Rightarrow> nat \<Rightarrow> bool" where
  \<comment> \<open>\<open>Membership.objects.filter(user=u, community_id=cid, status='approved').exists()\<close>\<close>
  "approved_member s u cid =
     (\<exists>m \<in> set (memberships s). m_user m = u \<and> m_community m = cid \<and> m_status m = Approved)"

definition db_member_communities :: "state \<Rightarrow> nat \<Rightarrow> nat list" where
  "db_member_communities s u =
     map m_community (filter (\<lambda>m. m_user m = u \<and> m_status m = Approved) (memberships s))"

definition db_admin_communities :: "state \<Rightarrow> nat \<Rightarrow> nat list" where
  "db_admin_communities s u =
     map m_community
       (filter (\<lambda>m. m_user m = u \<and> m_status m = Approved \<and> m_role m = RoleAdmin) (memberships s))"

definition load_member_communities :: "state \<Rightarrow> nat \<Rightarrow> nat list \<times> state" where
  "load_member_communities s u =
     (case cache_user_memberships s u of
        Some l \<Rightarrow> (l, s)
      | None \<Rightarrow>
          (let l = db_member_communities s u
           in (l, s\<lparr>cache_user_memberships := (cache_user_memberships s)(u \<mapsto> l)\<rparr>)))"

definition load_admin_communities :: "state \<Rightarrow> nat \<Rightarrow> nat list \<times> state" where
  "load_admin_communities s u =
     (case cache_user_admin_memberships s u of
        Some l \<Rightarrow> (l, s)
      | None \<Rightarrow>
          (let l = db_admin_communities s u
           in (l, s\<lparr>cache_user_admin_memberships := (cache_user_admin_memberships s)(u \<mapsto> l)\<rparr>)))"

definition reconcile ::
  "state \<Rightarrow> nat \<Rightarrow> string option \<Rightarrow> nat list \<Rightarrow> nat list \<Rightarrow> (nat list \<times> nat list) \<times> state" where
  \<comment> \<open>the double check of the working lists when a community slug is given\<close>
  "reconcile s u community_slug mc ac =
     (case community_slug of
        None \<Rightarrow> ((mc, ac), s)
      | Some sl \<Rightarrow>
          if sl = [] then ((mc, ac), s)
          else (case get_by_slug s sl of
                  None \<Rightarrow> ((mc, ac), s)
                | Some c \<Rightarrow>
                    if approved_member s u (c_id c) \<and> c_id c \<notin> set mc
                    then ((mc @ [c_id c], ac),
                          s\<lparr>cache_user_memberships := (cache_user_memberships s)(u := None)\<rparr>)
                    else if \<not> approved_member s u (c_id c) \<and> c_id c \<in> set mc
                    then ((remove1 (c_id c) mc,
                           if c_id c \<in> set ac then remove1 (c_id c) ac else ac),
                          s\<lparr>cache_user_memberships := (cache_user_memberships s)(u := None),
                            cache_user_admin_memberships :=
                              (cache_user_admin_memberships s)(u := None)\<rparr>)
                    else ((mc, ac), s)))"

definition public_communities_posts :: "state \<Rightarrow> post \<Rightarrow> bool" where
  \<comment> \<open>\<open>Q(community__is_private=False, visibility='public')\<close>\<close>
  "public_communities_posts s p =
     (case post_community s p of
        None \<Rightarrow> False
      | Some c \<Rightarrow> \<not> is_private c \<and> p_visibility p = VisPublic)"

definition member_communities_posts :: "nat list \<Rightarrow> post \<Rightarrow> bool" where
  \<comment> \<open>\<open>Q(community_id__in=member_communities, visibility__in=['public', 'members'])\<close>\<close>
  "member_communities_posts mc p =
     (p_community p \<in> set mc \<and> (p_visibility p = VisPublic \<or> p_visibility p = VisMembers))"

definition admin_communities_posts :: "nat list \<Rightarrow> post \<Rightarrow> bool" where
  \<comment> \<open>\<open>Q(community_id__in=admin_communities)\<close>\<close>
  "admin_communities_posts ac p = (p_community p \<in> set ac)"

definition slug_filter :: "state \<Rightarrow> string option \<Rightarrow> post list" where
  \<comment> \<open>\<open>queryset.filter(community__slug=community_slug)\<close> when the slug is given\<close>
  "slug_filter s community_slug =
     (case community_slug of
        None \<Rightarrow> posts s
      | Some sl \<Rightarrow>
          if sl = [] then posts s
          else filter (\<lambda>p. case post_community s p of None \<Rightarrow> False | Some c \<Rightarrow> slug c = sl)
                 (posts s))"

definition get_post_queryset :: "state \<Rightarrow> nat option \<Rightarrow> string option \<Rightarrow> post list \<times> state" where
  "get_post_queryset s user community_slug =
     (let queryset = slug_filter s community_slug in
      case user of
        None \<Rightarrow> (filter (public_communities_posts s) queryset, s)
      | Some u \<Rightarrow>
          (let (mc0, s1) = load_member_communities s u;
               (ac0, s2) = load_admin_communities s1 u;
               ((mc, ac), s3) = reconcile s2 u community_slug mc0 ac0
           in (remdups (filter (\<lambda>p. public_communities_posts s p
                                     \<or> member_communities_posts mc p
                                     \<or> admin_communities_posts ac p) queryset),
               s3)))"

subsection \<open>Post creation\<close>

definition validate_post_creation ::
  "state \<Rightarrow> nat \<Rightarrow> community \<Rightarrow> (exn + bool \<times> membership) \<times> state" where
  "validate_post_creation s user c =
     (case cache_post_creation_permission s (c_id c, user) of
        Some CachedDenied \<Rightarrow>
          (Inl (PermissionDenied ''You must be a member of this community to post.''), s)
      | Some (CachedMembership m) \<Rightarrow> (Inr (True, m), s)
      | None \<Rightarrow>
          if creator_id c = user
          then (case objects_get (\<lambda>m. m_user m = user \<and> m_community m = c_id c) (memberships s) of
                  MultipleObjects \<Rightarrow> (Inl MultipleObjectsReturned, s)
                | Got m \<Rightarrow>
                    (Inr (True, m),
                     s\<lparr>cache_post_creation_permission :=
                         (cache_post_creation_permission s)((c_id c, user) \<mapsto> CachedMembership m)\<rparr>)
                | DoesNotExist \<Rightarrow>
                    (let m = \<lparr>m_user = user, m_community = c_id c,
                              m_role = RoleAdmin, m_status = Approved\<rparr>;
                         s1 = membership_create m s
                     in (Inr (True, m),
                         s1\<lparr>cache_post_creation_permission :=
                              (cache_post_creation_permission s1)((c_id c, user) \<mapsto> CachedMembership m)\<rparr>)))
          else (case objects_get
                       (\<lambda>m. m_user m = user \<and> m_community m = c_id c \<and> m_status m = Approved)
                       (memberships s) of
                  MultipleObjects \<Rightarrow> (Inl MultipleObjectsReturned, s)
                | Got m \<Rightarrow>
                    (Inr (True, m),
                     s\<lparr>cache_post_creation_permission :=
                         (cache_post_creation_permission s)((c_id c, user) \<mapsto> CachedMembership m)\<rparr>)
                | DoesNotExist \<Rightarrow>
                    (Inl (PermissionDenied ''You must be a member of this community to post.''),
                     s\<lparr>cache_post_creation_permission :=
                         (cache_post_creation_permission s)((c_id c, user) \<mapsto> CachedDenied)\<rparr>)))"

subsection \<open>Upvotes\<close>

definition upvotes_add :: "nat \<Rightarrow> nat \<Rightarrow> state \<Rightarrow> state" where
  \<comment> \<open>\<open>post.upvotes.add(user)\<close>, then the m2m_changed receiver\<close>
  "upvotes_add pid user s =
     update_post_upvote_count pid
       (update_post_row pid
          (\<lambda>p. if user \<in> set (p_upvotes p) then p else p\<lparr>p_upvotes := p_upvotes p @ [user]\<rparr>) s)"

definition upvotes_remove :: "nat \<Rightarrow> nat \<Rightarrow> state \<Rightarrow> state" where
  \<comment> \<open>\<open>post.upvotes.remove(user)\<close>, then the m2m_changed receiver\<close>
  "upvotes_remove pid user s =
     update_post_upvote_count pid
       (update_post_row pid (\<lambda>p. p\<lparr>p_upvotes := removeAll user (p_upvotes p)\<rparr>) s)"

definition load_is_member :: "state \<Rightarrow> nat \<Rightarrow> nat \<Rightarrow> cached_status \<times> state" where
  \<comment> \<open>the value of \<open>is_member\<close>: what is cached under
      \<open>membership_status:{community}:{user}\<close>, or on a miss the verdict of the store,
      which is then cached\<close>
  "load_is_member s cid user =
     (case cache_membership_status s (cid, user) of
        Some v \<Rightarrow> (v, s)
      | None \<Rightarrow>
          (let v = CachedVerdict (approved_member s user cid)
           in (v, s\<lparr>cache_membership_status := (cache_membership_status s)((cid, user) \<mapsto> v)\<rparr>)))"

text \<open>
  \<open>toggle_post_upvote\<close> is given the post object the caller loaded. Its result comes
  with the store after each effect, in order: the membership verdict cached, the relation
  changed (and the receiver run), the counter field saved. The last one is the store the
  call leaves. A post object whose row is gone from the table cannot be written; the call
  then ends in a database error.
\<close>

definition toggle_post_upvote ::
  "state \<Rightarrow> post \<Rightarrow> nat \<Rightarrow> (exn + bool \<times> string) \<times> state list" where
  "toggle_post_upvote s post user =
     (let (is_member, s1) = load_is_member s (p_community post) user in
      case post_community s1 post of
        None \<Rightarrow> (Inl RelatedObjectDoesNotExist, [s1])
      | Some c \<Rightarrow>
          if \<not> (truthy is_member \<or> creator_id c = user)
          then (Inr (False, ''You must be a member of this community to upvote posts.''), [s1])
          else (case find (\<lambda>r. p_id r = p_id post) (posts s1) of
                  None \<Rightarrow> (Inl DatabaseError, [s1])
                | Some row \<Rightarrow>
                    if user \<in> set (p_upvotes row)
                    then (let s2 = upvotes_remove (p_id post) user s1;
                              s3 = update_post_row (p_id post)
                                     (\<lambda>r. r\<lparr>upvote_count_cache := max 0 (upvote_count_cache post - 1)\<rparr>) s2
                          in (Inr (False, ''Upvote removed.''), [s1, s2, s3]))
                    else (let s2 = upvotes_add (p_id post) user s1;
                              s3 = update_post_row (p_id post)
                                     (\<lambda>r. r\<lparr>upvote_count_cache := upvote_count_cache post + 1\<rparr>) s2
                          in (Inr (True, ''Post upvoted.''), [s1, s2, s3]))))"

section \<open>PostViewSet.retrieve (views/post_views.py)\<close>


definition retrieve_membership :: "state \<Rightarrow> nat \<Rightarrow> community \<Rightarrow> exn + bool \<times> bool" where
  \<comment> \<open>the membership lookup of \<open>retrieve\<close>: \<open>(is_member, is_admin)\<close>\<close>
  "retrieve_membership s u c =
     (case objects_get (\<lambda>m. m_user m = u \<and> m_community m = c_id c \<and> m_status m = Approved)
             (memberships s) of
        Got m \<Rightarrow> Inr (True, m_role m = RoleAdmin)
      | DoesNotExist \<Rightarrow> Inr (False, False)
      | MultipleObjects \<Rightarrow> Inl MultipleObjectsReturned)"



section \<open>The specification's membership resolution and decision table\<close>

text \<open>
  The two definitions the specification gives in words (sections 4.3 and 4.4), to compare
  the code with. \<open>spec_resolve\<close> is the Membership Authority: the creator first, then the
  approved Membership row. \<open>rows_resolve\<close> is the same resolution without its first
  rule.
\<close>

record resolution =
  isMember :: bool
  res_status :: "status option"
  res_role :: "role option"

definition rows_resolve :: "state \<Rightarrow> nat \<Rightarrow> community \<Rightarrow> resolution" where
  "rows_resolve s u c =
     (case find (\<lambda>m. m_user m = u \<and> m_community m = c_id c \<and> m_status m = Approved)
             (memberships s) of
        None \<Rightarrow> \<lparr>isMember = False, res_status = None, res_role = None\<rparr>
      | Some m \<Rightarrow> \<lparr>isMember = True, res_status = Some (m_status m), res_role = Some (m_role m)\<rparr>)"

definition spec_resolve :: "state \<Rightarrow> nat \<Rightarrow> community \<Rightarrow> resolution" where
  "spec_resolve s u c =
     (if creator_id c = u
      then \<lparr>isMember = True, res_status = Some Approved, res_role = Some RoleAdmin\<rparr>
      else rows_resolve s u c)"

datatype viewer_state = Unauthenticated | NotMember | MemberNotAdmin | AdminOrCreator

definition viewer_state_of :: "resolution option \<Rightarrow> viewer_state" where
  \<comment> \<open>\<open>None\<close> is the unauthenticated viewer\<close>
  "viewer_state_of r =
     (case r of
        None \<Rightarrow> Unauthenticated
      | Some x \<Rightarrow>
          if res_role x = Some RoleAdmin then AdminOrCreator
          else if isMember x then MemberNotAdmin
          else NotMember)"

fun spec_decision_table :: "viewer_state \<Rightarrow> bool \<Rightarrow> visibility \<Rightarrow> bool" where
  "spec_decision_table Unauthenticated priv vis = (\<not> priv \<and> vis = VisPublic)"
| "spec_decision_table NotMember priv vis = (\<not> priv \<and> vis = VisPublic)"
| "spec_decision_table MemberNotAdmin priv vis = (vis = VisPublic \<or> vis = VisMembers)"
| "spec_decision_table AdminOrCreator priv vis = True"

definition spec_visible :: "state \<Rightarrow> nat option \<Rightarrow> community \<Rightarrow> post \<Rightarrow> bool" where
  "spec_visible s viewer c p =
     spec_decision_table (viewer_state_of (map_option (\<lambda>u. spec_resolve s u c) viewer))
       (is_private c) (p_visibility p)"

definition rows_visible :: "state \<Rightarrow> nat option \<Rightarrow> community \<Rightarrow> post \<Rightarrow> bool" where
  "rows_visible s viewer c p =
     spec_decision_table (viewer_state_of (map_option (\<lambda>u. rows_resolve s u c) viewer))
       (is_private c) (p_visibility p)"

subsection \<open>Notions the statements use\<close>

definition approved_admin_count :: "state \<Rightarrow> nat \<Rightarrow> nat" where
  \<comment> \<open>the community's approved admin members\<close>
  "approved_admin_count s cid =
     length (filter (\<lambda>m. m_community m = cid \<and> m_role m = RoleAdmin \<and> m_status m = Approved)
               (memberships s))"

definition membership_sets_current :: "state \<Rightarrow> nat \<Rightarrow> bool" where
  \<comment> \<open>the viewer's two cached id lists are absent or list what the store lists\<close>
  "membership_sets_current s u =
     ((case cache_user_memberships s u of
         None \<Rightarrow> True | Some l \<Rightarrow> set l = set (db_member_communities s u))
      \<and> (case cache_user_admin_memberships s u of
           None \<Rightarrow> True | Some l \<Rightarrow> set l = set (db_admin_communities s u)))"

definition slug_given :: "string option \<Rightarrow> bool" where
  \<comment> \<open>\<open>if community_slug:\<close>\<close>
  "slug_given community_slug = (case community_slug of None \<Rightarrow> False | Some sl \<Rightarrow> sl \<noteq> [])"

definition lists_adequate :: "state \<Rightarrow> nat option \<Rightarrow> string option \<Rightarrow> nat \<Rightarrow> bool" where
  \<comment> \<open>what a query needs of the viewer's cached id lists to answer for community \<open>cid\<close>:
      the admin list, if cached, is right about \<open>cid\<close>; the member list, if cached, is
      right about \<open>cid\<close>, or, when a slug is given, it is merely free of repetitions, as
      the list of a query over rows unique per user and community is\<close>
  "lists_adequate s viewer community_slug cid =
     (case viewer of
        None \<Rightarrow> True
      | Some u \<Rightarrow>
          (case cache_user_admin_memberships s u of
             None \<Rightarrow> True
           | Some l \<Rightarrow> (cid \<in> set l) = (cid \<in> set (db_admin_communities s u)))
          \<and> (case cache_user_memberships s u of
                None \<Rightarrow> True
              | Some l \<Rightarrow>
                  (slug_given community_slug \<and> distinct l)
                  \<or> (cid \<in> set l) = (cid \<in> set (db_member_communities s u))))"

definition working_lists :: "state \<Rightarrow> nat \<Rightarrow> string option \<Rightarrow> nat list \<times> nat list" where
  \<comment> \<open>the two id lists \<open>get_post_queryset\<close> filters with\<close>
  "working_lists s u community_slug =
     (let (mc0, s1) = load_member_communities s u;
          (ac0, s2) = load_admin_communities s1 u
      in fst (reconcile s2 u community_slug mc0 ac0))"

section \<open>CommunityViewSet.membership_status (views/community_views.py)\<close>

text \<open>
  The view on the community \<open>get_object\<close> found. Its answer is the cached value when
  that is truthy, and otherwise the dictionary it builds and caches; the handler of the
  surrounding \<open>try\<close> answers any exception with an error dictionary.
\<close>

datatype status_response = StatusBody cached_status | StatusErrorBody

definition membership_status :: "state \<Rightarrow> nat option \<Rightarrow> community \<Rightarrow> status_response \<times> state" where
  "membership_status s user c =
     (case user of
        None \<Rightarrow> (StatusBody (CachedStatusData False None None), s)
      | Some u \<Rightarrow>
          (case (case cache_membership_status s (c_id c, u) of
                   None \<Rightarrow> None
                 | Some v \<Rightarrow> if truthy v then Some v else None) of
             Some cached_data \<Rightarrow> (StatusBody cached_data, s)
           | None \<Rightarrow>
               if creator_id c = u
               then (let data = CachedStatusData True (Some Approved) (Some RoleAdmin)
                     in (StatusBody data,
                         s\<lparr>cache_membership_status :=
                             (cache_membership_status s)((c_id c, u) \<mapsto> data)\<rparr>))
               else (case objects_get (\<lambda>m. m_community m = c_id c \<and> m_user m = u) (memberships s) of
                       Got m \<Rightarrow>
                         (let data = CachedStatusData True (Some (m_status m)) (Some (m_role m))
                          in (StatusBody data,
                              s\<lparr>cache_membership_status :=
                                  (cache_membership_status s)((c_id c, u) \<mapsto> data)\<rparr>))
                     | DoesNotExist \<Rightarrow>
                         (let data = CachedStatusData False None None
                          in (StatusBody data,
                              s\<lparr>cache_membership_status :=
                                  (cache_membership_status s)((c_id c, u) \<mapsto> data)\<rparr>))
                     | MultipleObjects \<Rightarrow> (StatusErrorBody, s))))"

section \<open>Community.member_count (models/community.py)\<close>

definition member_count :: "state \<Rightarrow> community \<Rightarrow> int" where
  \<comment> \<open>\<open>self.members.count()\<close> counts the users related through Membership: one per row
      of the community, whatever its status\<close>
  "member_count s c =
     (if member_count_cache c > 0 then member_count_cache c
      else int (length (filter (\<lambda>m. m_community m = c_id c) (memberships s))))"

section \<open>Permissions (permissions/base_permissions.py)\<close>

text \<open>The request's user is \<open>None\<close> when it is not authenticated.\<close>

definition is_community_admin :: "state \<Rightarrow> nat option \<Rightarrow> community \<Rightarrow> bool" where
  "is_community_admin s user c =
     (case user of
        None \<Rightarrow> False
      | Some u \<Rightarrow>
          if creator_id c = u then True
          else \<exists>m \<in> set (memberships s).
                 m_user m = u \<and> m_community m = c_id c
                 \<and> (m_role m = RoleAdmin \<or> m_role m = RoleModerator) \<and> m_status m = Approved)"

definition is_community_member :: "state \<Rightarrow> nat option \<Rightarrow> community \<Rightarrow> bool" where
  "is_community_member s user c =
     (case user of
        None \<Rightarrow> False
      | Some u \<Rightarrow>
          if creator_id c = u then True
          else \<exists>m \<in> set (memberships s).
                 m_user m = u \<and> m_community m = c_id c \<and> m_status m = Approved)"

section \<open>CommunitySerializer (serializers/community_serializers.py)\<close>

definition get_is_member :: "state \<Rightarrow> nat option \<Rightarrow> community \<Rightarrow> bool \<times> state" where
  "get_is_member s user c =
     (case user of
        None \<Rightarrow> (False, s)
      | Some u \<Rightarrow>
          if creator_id c = u then (True, s)
          else (case cache_community_is_member s (c_id c, u) of
                  Some b \<Rightarrow> (b, s)
                | None \<Rightarrow>
                    (let b = (\<exists>m \<in> set (memberships s). m_user m = u \<and> m_community m = c_id c)
                     in (b, s\<lparr>cache_community_is_member :=
                                 (cache_community_is_member s)((c_id c, u) \<mapsto> b)\<rparr>))))"

definition get_membership_status ::
  "state \<Rightarrow> nat option \<Rightarrow> community \<Rightarrow> (exn + status option) \<times> state" where
  \<comment> \<open>caching \<open>None\<close> leaves the key reading as a miss\<close>
  "get_membership_status s user c =
     (case user of
        None \<Rightarrow> (Inr None, s)
      | Some u \<Rightarrow>
          if creator_id c = u then (Inr (Some Approved), s)
          else (case cache_community_membership_status s (c_id c, u) of
                  Some st \<Rightarrow> (Inr (Some st), s)
                | None \<Rightarrow>
                    (case objects_get (\<lambda>m. m_user m = u \<and> m_community m = c_id c) (memberships s) of
                       Got m \<Rightarrow>
                         (Inr (Some (m_status m)),
                          s\<lparr>cache_community_membership_status :=
                              (cache_community_membership_status s)((c_id c, u) \<mapsto> m_status m)\<rparr>)
                     | DoesNotExist \<Rightarrow> (Inr None, s)
                     | MultipleObjects \<Rightarrow> (Inl MultipleObjectsReturned, s))))"

definition get_membership_role ::
  "state \<Rightarrow> nat option \<Rightarrow> community \<Rightarrow> (exn + role option) \<times> state" where
  "get_membership_role s user c =
     (case user of
        None \<Rightarrow> (Inr None, s)
      | Some u \<Rightarrow>
          if creator_id c = u then (Inr (Some RoleAdmin), s)
          else (case cache_community_membership_role s (c_id c, u) of
                  Some r \<Rightarrow> (Inr (Some r), s)
                | None \<Rightarrow>
                    (case objects_get (\<lambda>m. m_user m = u \<and> m_community m = c_id c) (memberships s) of
                       Got m \<Rightarrow>
                         (Inr (Some (m_role m)),
                          s\<lparr>cache_community_membership_role :=
                              (cache_community_membership_role s)((c_id c, u) \<mapsto> m_role m)\<rparr>)
                     | DoesNotExist \<Rightarrow> (Inr None, s)
                     | MultipleObjects \<Rightarrow> (Inl MultipleObjectsReturned, s))))"

section \<open>Concrete scenarios\<close>

text \<open>Rows and states on which the statements below are evaluated.\<close>

definition mk_community :: "nat \<Rightarrow> string \<Rightarrow> nat \<Rightarrow> bool \<Rightarrow> bool \<Rightarrow> int \<Rightarrow> community" where
  "mk_community i n cr priv appr cnt =
     \<lparr>c_id = i, name = n, slug = n, description = ''about'', short_description = ''about'',
      category = ''other'', tags = [], rules = [], image = None, banner = None,
      creator_id = cr, is_private = priv, requires_approval = appr, member_count_cache = cnt\<rparr>"

definition mk_state :: "community list \<Rightarrow> membership list \<Rightarrow> post list \<Rightarrow> state" where
  \<comment> \<open>a store with an empty cache\<close>
  "mk_state cs ms ps =
     \<lparr>communities = cs, memberships = ms, posts = ps,
      cache_user_memberships = Map.empty, cache_user_admin_memberships = Map.empty,
      cache_membership_status = Map.empty, cache_post_creation_permission = Map.empty,
      cache_community_is_member = Map.empty, cache_community_membership_status = Map.empty,
      cache_community_membership_role = Map.empty\<rparr>"

definition club :: community where
  \<comment> \<open>an open, public community created by user 1\<close>
  "club = mk_community 1 ''club'' 1 False False 1"

definition lodge :: community where
  \<comment> \<open>a private community that requires approval, created by user 1\<close>
  "lodge = mk_community 2 ''lodge'' 1 True True 1"

definition admin_row :: "nat \<Rightarrow> nat \<Rightarrow> membership" where
  "admin_row u cid = \<lparr>m_user = u, m_community = cid, m_role = RoleAdmin, m_status = Approved\<rparr>"

definition member_row :: "nat \<Rightarrow> nat \<Rightarrow> membership" where
  "member_row u cid = \<lparr>m_user = u, m_community = cid, m_role = RoleMember, m_status = Approved\<rparr>"

definition moderator_row :: "nat \<Rightarrow> nat \<Rightarrow> membership" where
  "moderator_row u cid = \<lparr>m_user = u, m_community = cid, m_role = RoleModerator, m_status = Approved\<rparr>"

definition campus :: state where
  \<comment> \<open>both communities, user 1 holding an admin row in each\<close>
  "campus = mk_state [club, lodge] [admin_row 1 1, admin_row 1 2] []"

definition duo :: state where
  \<comment> \<open>the open community with its admin, user 1, and a moderator, user 2\<close>
  "duo = mk_state [club] [admin_row 1 1, moderator_row 2 1] []"

definition notice :: post where
  \<comment> \<open>a public post of the open community, upvoted by user 1\<close>
  "notice = \<lparr>p_id = 7, p_community = 1, p_visibility = VisPublic, p_upvotes = [1], upvote_count_cache = 1\<rparr>"

definition minutes :: post where
  "minutes = \<lparr>p_id = 8, p_community = 2, p_visibility = VisMembers, p_upvotes = [], upvote_count_cache = 0\<rparr>"

definition ledger :: post where
  "ledger = \<lparr>p_id = 9, p_community = 2, p_visibility = VisAdmin, p_upvotes = [], upvote_count_cache = 0\<rparr>"

definition forum :: state where
  \<comment> \<open>user 1 administers the open community, user 2 is a member of it, user 3 of the private one\<close>
  "forum = mk_state [club, lodge] [admin_row 1 1, member_row 2 1, member_row 3 2]
             [notice, minutes, ledger]"

definition bare :: state where
  \<comment> \<open>the two communities and three posts, and no Membership row at all\<close>
  "bare = mk_state [club, lodge] [] [notice, minutes, ledger]"

definition pending_row :: "nat \<Rightarrow> nat \<Rightarrow> membership" where
  "pending_row u cid = \<lparr>m_user = u, m_community = cid, m_role = RoleMember, m_status = Pending\<rparr>"

definition annex :: community where
  \<comment> \<open>a community that requires approval, its counter field at 0\<close>
  "annex = mk_community 3 ''annex'' 1 False True 0"

definition hall :: state where
  "hall = mk_state [annex] [] []"

definition guild :: community where
  \<comment> \<open>a community that requires approval, its counter field at 2\<close>
  "guild = mk_community 4 ''guild'' 1 False True 2"

definition court :: state where
  \<comment> \<open>two approved members and the pending request of user 5\<close>
  "court = mk_state [guild] [admin_row 1 4, member_row 3 4, pending_row 5 4] []"


definition stale :: state where
  \<comment> \<open>user 3's id lists were cached before the membership was approved\<close>
  "stale = forum\<lparr>cache_user_memberships := [3 \<mapsto> []],
                  cache_user_admin_memberships := [3 \<mapsto> []]\<rparr>"

definition lagging :: state where
  \<comment> \<open>user 1's admin id list was cached before the admin rows existed\<close>
  "lagging = (mk_state [club, lodge] [admin_row 1 1, admin_row 1 2] [notice, minutes, ledger])
                \<lparr>cache_user_admin_memberships := [1 \<mapsto> []]\<rparr>"

section \<open>Join and leave\<close>

lemmas ex_defs = duo_def campus_def mk_state_def club_def lodge_def mk_community_def
  admin_row_def moderator_row_def member_row_def Let_def

lemmas post_defs = notice_def minutes_def ledger_def forum_def

lemma objects_get_single:
  assumes "filter P rows = [r]"
  shows "objects_get P rows = Got r"
  using assms by (simp add: objects_get_def)

lemma filter_append_fresh:
  assumes "\<forall>x \<in> set xs. \<not> P x" and "P y"
  shows "filter P (xs @ [y]) = [y]"
  using assms by (induction xs) auto

lemma remove1_append_fresh:
  assumes "y \<notin> set xs"
  shows "remove1 y (xs @ [y]) = xs"
  using assms by (induction xs) auto

lemma memberships_update_community_member_count [simp]:
  "memberships (update_community_member_count m s) = memberships s"
  by (simp add: update_community_member_count_def update_community_row_def Let_def)

lemma memberships_update_community_row [simp]:
  "memberships (update_community_row i f s) = memberships s"
  by (simp add: update_community_row_def)

lemma memberships_leave_cache_invalidation [simp]:
  "memberships (leave_cache_invalidation cid u s) = memberships s"
  by (simp add: leave_cache_invalidation_def)

lemma memberships_membership_create [simp]:
  "memberships (membership_create m s) = memberships s @ [m]"
  by (simp add: membership_create_def)

lemma memberships_membership_delete [simp]:
  "memberships (membership_delete m s) = remove1 m (memberships s)"
  by (simp add: membership_delete_def)

lemma join_community_fresh:
  assumes "\<forall>m \<in> set (memberships s). \<not> (m_user m = u \<and> m_community m = c_id c)"
  shows "\<exists>m msg. join_community s u c = ((Some m, msg), membership_create m s)
           \<and> m_user m = u \<and> m_community m = c_id c \<and> m_role m = RoleMember
           \<and> m_status m = (if requires_approval c then Pending else Approved)"
  using assms by (auto simp: join_community_def Let_def)

lemma leave_after_create:
  assumes fresh: "\<forall>x \<in> set (memberships s). \<not> (m_user x = u \<and> m_community x = cid)"
    and m: "m_user m = u" "m_community m = cid" "m_role m = RoleMember"
    and c': "c_id c' = cid"
  shows "fst (leave_community (membership_create m s) u c')
           = Inr (True, ''You have successfully left this community.'')
         \<and> memberships (snd (leave_community (membership_create m s) u c')) = memberships s"
proof -
  let ?P = "\<lambda>x. m_user x = u \<and> m_community x = c_id c'"
  have "filter ?P (memberships s @ [m]) = [m]"
    using fresh m c' by (intro filter_append_fresh) auto
  then have g: "objects_get ?P (memberships (membership_create m s)) = Got m"
    by (simp add: objects_get_single)
  have notin: "m \<notin> set (memberships s)"
    using fresh m by auto
  show ?thesis
    using g m notin by (simp add: leave_community_def Let_def remove1_append_fresh)
qed

text \<open>
  C8. A user with no Membership row in a community who joins it and then leaves it is
  left with no Membership row there, whether the community requires approval or not:
  the join creates one row, the leave succeeds and deletes it, and the membership table
  is the one before the join. The community object given to the leave is any in-memory
  copy of the same community.
\<close>

theorem join_then_leave_restores:
  assumes "\<forall>m \<in> set (memberships s). \<not> (m_user m = u \<and> m_community m = c_id c)"
    and "c_id c' = c_id c"
  shows "fst (fst (join_community s u c)) \<noteq> None
         \<and> (\<exists>m \<in> set (memberships (snd (join_community s u c))).
               m_user m = u \<and> m_community m = c_id c
               \<and> m_status m = (if requires_approval c then Pending else Approved))
         \<and> fst (leave_community (snd (join_community s u c)) u c')
             = Inr (True, ''You have successfully left this community.'')
         \<and> memberships (snd (leave_community (snd (join_community s u c)) u c')) = memberships s
         \<and> (\<forall>m \<in> set (memberships (snd (leave_community (snd (join_community s u c)) u c'))).
               \<not> (m_user m = u \<and> m_community m = c_id c))"
proof -
  from join_community_fresh [OF assms(1)] obtain m msg where
    j: "join_community s u c = ((Some m, msg), membership_create m s)"
    and m: "m_user m = u" "m_community m = c_id c" "m_role m = RoleMember"
       "m_status m = (if requires_approval c then Pending else Approved)"
    by blast
  from leave_after_create [OF assms(1) m(1,2,3) assms(2)]
  have l: "fst (leave_community (membership_create m s) u c')
             = Inr (True, ''You have successfully left this community.'')"
    "memberships (snd (leave_community (membership_create m s) u c')) = memberships s"
    by simp_all
  show ?thesis
    using j m l assms(1) by auto
qed

theorem join_then_leave_restores_witness:
  "\<not> (\<exists>m \<in> set (memberships campus). m_user m = 2 \<and> m_community m = c_id lodge)
   \<and> fst (leave_community (snd (join_community campus 2 lodge)) 2 lodge)
       = Inr (True, ''You have successfully left this community.'')
   \<and> memberships (snd (leave_community (snd (join_community campus 2 lodge)) 2 lodge))
       = [admin_row 1 1, admin_row 1 2]"
proof -
  have h: "\<forall>m \<in> set (memberships campus). \<not> (m_user m = 2 \<and> m_community m = c_id lodge)"
    by (simp add: campus_def mk_state_def admin_row_def lodge_def mk_community_def)
  have m: "memberships campus = [admin_row 1 1, admin_row 1 2]"
    by (simp add: campus_def mk_state_def)
  show ?thesis
    using h m join_then_leave_restores [OF h, of lodge] by simp
qed

section \<open>The last admin\<close>

lemma objects_get_GotD:
  assumes "objects_get P rows = Got m"
  shows "filter P rows = [m]"
  using assms by (auto simp: objects_get_def split: list.splits)

lemma objects_get_Got_holds:
  assumes "objects_get P rows = Got m"
  shows "P m" and "m \<in> set rows"
proof -
  from objects_get_GotD [OF assms] have "m \<in> set (filter P rows)"
    by (metis list.set_intros(1))
  then show "P m" and "m \<in> set rows" by simp_all
qed

lemma filter_remove1_le:
  "length (filter P xs) \<le> Suc (length (filter P (remove1 m xs)))"
  by (induction xs) auto

lemma filter_remove1_not:
  "\<not> P m \<Longrightarrow> length (filter P (remove1 m xs)) = length (filter P xs)"
  by (induction xs) auto

lemma filter_replace1_le:
  "length (filter P xs) \<le> Suc (length (filter P (replace1 a b xs)))"
  by (induction xs) auto

lemma filter_replace1_not:
  "\<not> P a \<or> P b \<Longrightarrow> length (filter P xs) \<le> length (filter P (replace1 a b xs))"
  by (induction xs) auto

lemma memberships_membership_save [simp]:
  "memberships (membership_save old new s) = replace1 old new (memberships s)"
  by (simp add: membership_save_def)

lemma leave_keeps_an_admin:
  assumes "0 < admin_count s (c_id c)"
  shows "0 < admin_count (snd (leave_community s u c)) (c_id c)"
proof (cases "objects_get (\<lambda>m. m_user m = u \<and> m_community m = c_id c) (memberships s)")
  case (Got m)
  let ?P = "\<lambda>m. m_community m = c_id c \<and> m_role m = RoleAdmin"
  show ?thesis
  proof (cases "m_role m = RoleAdmin \<and> admin_count s (c_id c) = 1")
    case True
    with Got assms show ?thesis by (simp add: leave_community_def)
  next
    case False
    have after: "admin_count (snd (leave_community s u c)) (c_id c)
                   = length (filter ?P (remove1 m (memberships s)))"
      using Got False by (auto simp: leave_community_def Let_def admin_count_def)
    show ?thesis
    proof (cases "m_role m = RoleAdmin")
      case True
      with False assms have "2 \<le> length (filter ?P (memberships s))"
        unfolding admin_count_def by linarith
      with filter_remove1_le [of ?P "memberships s" m] after show ?thesis by linarith
    next
      case False
      then have "\<not> ?P m" by simp
      from filter_remove1_not [of ?P m "memberships s", OF this] after assms
      show ?thesis unfolding admin_count_def by linarith
    qed
  qed
qed (use assms in \<open>simp_all add: leave_community_def\<close>)

lemma self_update_keeps_an_admin:
  assumes "0 < admin_count s (c_id c)"
  shows "0 < admin_count (snd (update_member_role s c u r u)) (c_id c)"
proof (cases "parse_role r")
  case None
  with assms show ?thesis by (simp add: update_member_role_def)
next
  case (Some ro)
  show ?thesis
  proof (cases "objects_get (\<lambda>m. m_user m = u \<and> m_community m = c_id c) (memberships s)")
    case (Got m)
    let ?P = "\<lambda>m. m_community m = c_id c \<and> m_role m = RoleAdmin"
    have mu: "m_user m = u \<and> m_community m = c_id c"
      using objects_get_Got_holds(1) [OF Got] .
    show ?thesis
    proof (cases "r \<noteq> ''admin'' \<and> admin_count s (c_id c) = 1")
      case True
      with Got Some mu assms show ?thesis by (simp add: update_member_role_def)
    next
      case False
      have after: "admin_count (snd (update_member_role s c u r u)) (c_id c)
                     = length (filter ?P (replace1 m (m\<lparr>m_role := ro\<rparr>) (memberships s)))"
        using Got Some False mu by (auto simp: update_member_role_def admin_count_def)
      show ?thesis
      proof (cases "r = ''admin''")
        case True
        with Some have "ro = RoleAdmin" by (simp add: parse_role_def)
        with mu have "?P (m\<lparr>m_role := ro\<rparr>)" by simp
        then have "\<not> ?P m \<or> ?P (m\<lparr>m_role := ro\<rparr>)" by simp
        from filter_replace1_not [of ?P m "m\<lparr>m_role := ro\<rparr>" "memberships s", OF this] after assms
        show ?thesis unfolding admin_count_def by linarith
      next
        case notadmin: False
        with False assms have "2 \<le> length (filter ?P (memberships s))"
          unfolding admin_count_def by linarith
        with filter_replace1_le [of ?P "memberships s" m "m\<lparr>m_role := ro\<rparr>"] after
        show ?thesis by linarith
      qed
    qed
  qed (use assms Some in \<open>simp_all add: update_member_role_def\<close>)
qed

text \<open>
  C3, as the code has it. The holder of the only admin-role Membership row of a community
  cannot leave it and cannot change their own role away from admin: both calls return
  \<open>(False, message)\<close> and leave the store as it was. Neither leaving nor a change of
  one's own role takes the number of admin-role rows of the community from positive to
  zero. The guard of \<open>update_member_role\<close> is on the caller's own row only.
\<close>

theorem last_admin_guard:
  "(objects_get (\<lambda>x. m_user x = u \<and> m_community x = c_id c) (memberships s) = Got m
      \<and> m_role m = RoleAdmin \<and> admin_count s (c_id c) = 1
     \<longrightarrow> leave_community s u c
           = (Inr (False, ''You cannot leave the community as you are the only admin. Please make another user an admin first.''), s))
   \<and> (objects_get (\<lambda>x. m_user x = u \<and> m_community x = c_id c) (memberships s) = Got m
        \<and> parse_role r \<noteq> None \<and> r \<noteq> ''admin'' \<and> admin_count s (c_id c) = 1
       \<longrightarrow> update_member_role s c u r u
             = (Inr (False, ''You cannot change your role as you are the only admin.''), s))
   \<and> (0 < admin_count s (c_id c) \<longrightarrow> 0 < admin_count (snd (leave_community s u c)) (c_id c))
   \<and> (0 < admin_count s (c_id c) \<longrightarrow> 0 < admin_count (snd (update_member_role s c u r u)) (c_id c))"
proof (intro conjI impI)
  assume a: "objects_get (\<lambda>x. m_user x = u \<and> m_community x = c_id c) (memberships s) = Got m
      \<and> m_role m = RoleAdmin \<and> admin_count s (c_id c) = 1"
  then show "leave_community s u c
           = (Inr (False, ''You cannot leave the community as you are the only admin. Please make another user an admin first.''), s)"
    by (simp add: leave_community_def)
next
  assume a: "objects_get (\<lambda>x. m_user x = u \<and> m_community x = c_id c) (memberships s) = Got m
        \<and> parse_role r \<noteq> None \<and> r \<noteq> ''admin'' \<and> admin_count s (c_id c) = 1"
  then have "m_user m = u"
    using objects_get_Got_holds(1) [of "\<lambda>x. m_user x = u \<and> m_community x = c_id c" "memberships s" m]
    by simp
  with a show "update_member_role s c u r u
             = (Inr (False, ''You cannot change your role as you are the only admin.''), s)"
    by (auto simp: update_member_role_def)
next
  assume "0 < admin_count s (c_id c)"
  then show "0 < admin_count (snd (leave_community s u c)) (c_id c)"
    by (rule leave_keeps_an_admin)
next
  assume "0 < admin_count s (c_id c)"
  then show "0 < admin_count (snd (update_member_role s c u r u)) (c_id c)"
    by (rule self_update_keeps_an_admin)
qed

theorem last_admin_guard_witness:
  "leave_community duo 1 club
     = (Inr (False, ''You cannot leave the community as you are the only admin. Please make another user an admin first.''), duo)
   \<and> update_member_role duo club 1 ''member'' 1
       = (Inr (False, ''You cannot change your role as you are the only admin.''), duo)
   \<and> 0 < admin_count (snd (leave_community duo 2 club)) (c_id club)
   \<and> 0 < admin_count (snd (update_member_role duo club 2 ''member'' 2)) (c_id club)"
proof -
  have g: "objects_get (\<lambda>x. m_user x = 1 \<and> m_community x = c_id club) (memberships duo) = Got (admin_row 1 1)"
    by (simp add: ex_defs objects_get_def)
  have r: "m_role (admin_row 1 1) = RoleAdmin" by (simp add: admin_row_def)
  have n: "admin_count duo (c_id club) = 1" by (simp add: ex_defs admin_count_def)
  have p: "parse_role ''member'' \<noteq> None \<and> ''member'' \<noteq> ''admin''" by (simp add: parse_role_def)
  show ?thesis
    using g r n p last_admin_guard [of 1 club duo "admin_row 1 1" "''member''"]
      last_admin_guard [of 2 club duo "admin_row 1 1" "''member''"]
    by simp
qed

text \<open>
  C3 as stated fails: a role change requested by another user is not guarded. In the
  open community, the moderator (user 2) sets the role of the only approved admin
  (user 1) to member; the call succeeds and no approved admin is left.
\<close>

theorem moderator_demotes_last_admin:
  "approved_admin_count duo 1 = 1
   \<and> fst (update_member_role duo club 1 ''member'' 2) = Inr (True, ''User role updated to member.'')
   \<and> approved_admin_count (snd (update_member_role duo club 1 ''member'' 2)) 1 = 0"
  by (simp add: ex_defs approved_admin_count_def update_member_role_def parse_role_def
      objects_get_def membership_save_def admin_count_def)

section \<open>Upvote toggling\<close>

lemma posts_update_post_row [simp]:
  "posts (update_post_row i f s) = map (\<lambda>p. if p_id p = i then f p else p) (posts s)"
  by (simp add: update_post_row_def)

lemma posts_upvotes_add [simp]:
  "posts (upvotes_add i u s) =
     map (\<lambda>p. if p_id p = i
               then (if u \<in> set (p_upvotes p) then p else p\<lparr>p_upvotes := p_upvotes p @ [u]\<rparr>)
                      \<lparr>upvote_count_cache :=
                         int (length (p_upvotes (if u \<in> set (p_upvotes p) then p
                                                 else p\<lparr>p_upvotes := p_upvotes p @ [u]\<rparr>)))\<rparr>
               else p) (posts s)"
  by (simp add: upvotes_add_def update_post_upvote_count_def)

lemma posts_upvotes_remove [simp]:
  "posts (upvotes_remove i u s) =
     map (\<lambda>p. if p_id p = i
               then p\<lparr>p_upvotes := removeAll u (p_upvotes p),
                      upvote_count_cache := int (length (removeAll u (p_upvotes p)))\<rparr>
               else p) (posts s)"
  by (simp add: upvotes_remove_def update_post_upvote_count_def)

lemma posts_load_is_member [simp]: "posts (snd (load_is_member s c u)) = posts s"
  by (simp add: load_is_member_def Let_def split: option.splits)

lemma communities_load_is_member [simp]: "communities (snd (load_is_member s c u)) = communities s"
  by (simp add: load_is_member_def Let_def split: option.splits)

lemma memberships_load_is_member [simp]: "memberships (snd (load_is_member s c u)) = memberships s"
  by (simp add: load_is_member_def Let_def split: option.splits)

lemma post_community_load_is_member [simp]:
  "post_community (snd (load_is_member s c u)) p = post_community s p"
  by (simp add: post_community_def community_by_id_def)

lemma unique_row:
  assumes "distinct (map p_id xs)" and "p \<in> set xs" and "r \<in> set xs" and "p_id r = p_id p"
  shows "r = p"
  using assms by (meson distinct_map inj_onD)

lemma find_row:
  assumes "distinct (map p_id xs)" and "p \<in> set xs"
  shows "find (\<lambda>r. p_id r = p_id p) xs = Some p"
  using assms
proof (induction xs)
  case Nil
  then show ?case by simp
next
  case (Cons x xs)
  then show ?case by (cases "x = p") (auto simp: image_iff)
qed

lemma map_row:
  assumes "distinct (map p_id xs)" and "p \<in> set xs"
  shows "map (\<lambda>r. if p_id r = p_id p then f r else r) xs = map (\<lambda>r. if r = p then f p else r) xs"
  using unique_row [OF assms] by (intro map_cong) auto

lemma map_row2:
  assumes "distinct (map p_id xs)" and "p \<in> set xs" and "p_id q = p_id p"
  shows "map (\<lambda>r. if p_id r = p_id p then g r else r) (map (\<lambda>r. if r = p then q else r) xs)
           = map (\<lambda>r. if r = p then g q else r) xs"
proof -
  have "(if p_id (if r = p then q else r) = p_id p then g (if r = p then q else r)
         else (if r = p then q else r)) = (if r = p then g q else r)" if "r \<in> set xs" for r
    using unique_row [OF assms(1,2) that] assms(3) by auto
  then show ?thesis by (simp add: comp_def)
qed


lemma load_is_member_cached:
  "cache_membership_status (snd (load_is_member s c u)) (c, u) = Some (fst (load_is_member s c u))"
  by (simp add: load_is_member_def Let_def split: option.splits)

lemma toggle_on:
  assumes row: "find (\<lambda>r. p_id r = p_id p) (posts s) = Some row" and new: "u \<notin> set (p_upvotes row)"
    and ok: "fst (toggle_post_upvote s p u) = Inr (True, ''Post upvoted.'')"
  shows "snd (toggle_post_upvote s p u)
           = [snd (load_is_member s (p_community p) u),
              upvotes_add (p_id p) u (snd (load_is_member s (p_community p) u)),
              update_post_row (p_id p) (\<lambda>r. r\<lparr>upvote_count_cache := upvote_count_cache p + 1\<rparr>)
                (upvotes_add (p_id p) u (snd (load_is_member s (p_community p) u)))]
         \<and> (\<exists>c. post_community s p = Some c
                \<and> (truthy (fst (load_is_member s (p_community p) u)) \<or> creator_id c = u))"
  using assms
  by (auto simp: toggle_post_upvote_def Let_def split_beta split: option.splits if_splits)

lemma toggle_off:
  assumes row: "find (\<lambda>r. p_id r = p_id p) (posts s) = Some row" and old: "u \<in> set (p_upvotes row)"
    and c: "post_community s p = Some c"
    and ent: "truthy (fst (load_is_member s (p_community p) u)) \<or> creator_id c = u"
  shows "toggle_post_upvote s p u
           = (Inr (False, ''Upvote removed.''),
              [snd (load_is_member s (p_community p) u),
               upvotes_remove (p_id p) u (snd (load_is_member s (p_community p) u)),
               update_post_row (p_id p)
                 (\<lambda>r. r\<lparr>upvote_count_cache := max 0 (upvote_count_cache p - 1)\<rparr>)
                 (upvotes_remove (p_id p) u (snd (load_is_member s (p_community p) u)))])"
  using assms
  by (auto simp: toggle_post_upvote_def Let_def split_beta split: option.splits if_splits)


lemma others_update_post_row [simp]:
  "communities (update_post_row i f s) = communities s"
  "memberships (update_post_row i f s) = memberships s"
  "cache_membership_status (update_post_row i f s) = cache_membership_status s"
  by (simp_all add: update_post_row_def)

lemma others_upvotes_add [simp]:
  "communities (upvotes_add i u s) = communities s"
  "memberships (upvotes_add i u s) = memberships s"
  "cache_membership_status (upvotes_add i u s) = cache_membership_status s"
  by (simp_all add: upvotes_add_def update_post_upvote_count_def)

lemma others_upvotes_remove [simp]:
  "communities (upvotes_remove i u s) = communities s"
  "memberships (upvotes_remove i u s) = memberships s"
  "cache_membership_status (upvotes_remove i u s) = cache_membership_status s"
  by (simp_all add: upvotes_remove_def update_post_upvote_count_def)

lemma load_is_member_same_cache:
  assumes "cache_membership_status t = cache_membership_status (snd (load_is_member s c u))"
  shows "fst (load_is_member t c u) = fst (load_is_member s c u)"
  using assms load_is_member_cached [of s c u] by (simp add: load_is_member_def)

lemma post_community_same:
  assumes "communities t = communities s" and "p_community q = p_community p"
  shows "post_community t q = post_community s p"
  using assms by (simp add: post_community_def community_by_id_def)

lemmas toggle_defs = toggle_post_upvote_def load_is_member_def approved_member_def
  post_community_def community_by_id_def upvotes_add_def upvotes_remove_def
  update_post_upvote_count_def update_post_row_def Let_def

text \<open>
  C7. A user who has not upvoted a post and is let through by \<open>toggle_post_upvote\<close>
  toggles the upvote on, and then off on the post as the next request loads it: the second
  call removes the upvote and the posts table, with the post's upvoters and its
  \<open>upvote_count_cache\<close>, is what it was before the first call. In every store written on
  the way the post's \<open>upvote_count_cache\<close> is non-negative. The field is a
  PositiveIntegerField, so it starts non-negative.
\<close>

theorem toggle_on_off_restores:
  assumes p: "p \<in> set (posts s)" and d: "distinct (map p_id (posts s))"
    and new: "u \<notin> set (p_upvotes p)" and nonneg: "0 \<le> upvote_count_cache p"
    and ok: "fst (toggle_post_upvote s p u) = Inr (True, ''Post upvoted.'')"
    and s1: "s1 = last (snd (toggle_post_upvote s p u))"
    and p1: "p1 = p\<lparr>p_upvotes := p_upvotes p @ [u], upvote_count_cache := upvote_count_cache p + 1\<rparr>"
  shows "find (\<lambda>r. p_id r = p_id p) (posts s1) = Some p1
       \<and> fst (toggle_post_upvote s1 p1 u) = Inr (False, ''Upvote removed.'')
       \<and> posts (last (snd (toggle_post_upvote s1 p1 u))) = posts s
       \<and> (\<forall>t \<in> set (snd (toggle_post_upvote s p u) @ snd (toggle_post_upvote s1 p1 u)).
             \<forall>r \<in> set (posts t). p_id r = p_id p \<longrightarrow> 0 \<le> upvote_count_cache r)"
proof -
  let ?a = "snd (load_is_member s (p_community p) u)"
  let ?b = "upvotes_add (p_id p) u ?a"
  let ?c = "update_post_row (p_id p) (\<lambda>r. r\<lparr>upvote_count_cache := upvote_count_cache p + 1\<rparr>) ?b"
  have row: "find (\<lambda>r. p_id r = p_id p) (posts s) = Some p"
    using find_row [OF d p] .
  from toggle_on [OF row new ok] obtain c where
    tr: "snd (toggle_post_upvote s p u) = [?a, ?b, ?c]"
    and c: "post_community s p = Some c"
    and ent: "truthy (fst (load_is_member s (p_community p) u)) \<or> creator_id c = u"
    by blast
  have s1c: "s1 = ?c" using s1 tr by simp
  have posts_b: "posts ?b = map (\<lambda>r. if r = p then p\<lparr>p_upvotes := p_upvotes p @ [u],
                      upvote_count_cache := int (length (p_upvotes p @ [u]))\<rparr> else r) (posts s)"
    using new unique_row [OF d p] by (auto intro!: map_cong)
  have posts_c: "posts s1 = map (\<lambda>r. if r = p then p1 else r) (posts s)"
    using new unique_row [OF d p] by (auto simp: s1c p1 intro!: map_cong)
  have ids: "map p_id (posts s1) = map p_id (posts s)"
    by (auto simp: posts_c p1)
  have d1: "distinct (map p_id (posts s1))" using ids d by simp
  have in1: "p1 \<in> set (posts s1)" using p by (auto simp: posts_c)
  have id1: "p_id p1 = p_id p" and com1: "p_community p1 = p_community p" by (simp_all add: p1)
  have row1: "find (\<lambda>r. p_id r = p_id p) (posts s1) = Some p1"
    using find_row [OF d1 in1] by (simp add: id1)
  have row1id: "find (\<lambda>r. p_id r = p_id p1) (posts s1) = Some p1"
    using row1 by (simp add: id1)
  have old1: "u \<in> set (p_upvotes p1)" by (simp add: p1)
  have c1: "post_community s1 p1 = Some c"
    using c post_community_same [of s1 s p1 p] by (simp add: s1c com1)
  have ent1: "truthy (fst (load_is_member s1 (p_community p1) u)) \<or> creator_id c = u"
    using ent load_is_member_same_cache [of s1 s "p_community p" u] by (simp add: s1c com1)
  let ?a2 = "snd (load_is_member s1 (p_community p1) u)"
  let ?b2 = "upvotes_remove (p_id p1) u ?a2"
  let ?c2 = "update_post_row (p_id p1)
               (\<lambda>r. r\<lparr>upvote_count_cache := max 0 (upvote_count_cache p1 - 1)\<rparr>) ?b2"
  have off: "toggle_post_upvote s1 p1 u = (Inr (False, ''Upvote removed.''), [?a2, ?b2, ?c2])"
    using toggle_off [OF row1id old1 c1 ent1] .
  have row_back: "p1\<lparr>p_upvotes := removeAll u (p_upvotes p1),
                 upvote_count_cache := max 0 (upvote_count_cache p1 - 1)\<rparr> = p"
    using new nonneg by (simp add: p1)
  have posts_b2: "posts ?b2 = map (\<lambda>r. if r = p1 then p1\<lparr>p_upvotes := removeAll u (p_upvotes p1),
                      upvote_count_cache := int (length (removeAll u (p_upvotes p1)))\<rparr> else r) (posts s1)"
    by (simp add: map_row [OF d1 in1])
  have "posts ?c2 = map (\<lambda>r. if p_id r = p_id p1
                              then r\<lparr>upvote_count_cache := max 0 (upvote_count_cache p1 - 1)\<rparr>
                              else r) (posts ?b2)"
    by (simp del: posts_upvotes_remove)
  also have "\<dots> = map (\<lambda>r. if r = p1
                          then p1\<lparr>p_upvotes := removeAll u (p_upvotes p1),
                                 upvote_count_cache := int (length (removeAll u (p_upvotes p1)))\<rparr>
                                 \<lparr>upvote_count_cache := max 0 (upvote_count_cache p1 - 1)\<rparr>
                          else r) (posts s1)"
    unfolding posts_b2 by (rule map_row2 [OF d1 in1]) simp
  finally have posts_c2: "posts ?c2 = map (\<lambda>r. if r = p1 then p else r) (posts s1)"
    using row_back by simp
  have restored: "posts ?c2 = posts s"
    unfolding posts_c2 posts_c using unique_row [OF d p, of p1] id1 by (auto intro!: map_idI)
  have nn: "\<forall>t \<in> set ([?a, ?b, ?c] @ [?a2, ?b2, ?c2]).
              \<forall>r \<in> set (posts t). p_id r = p_id p \<longrightarrow> 0 \<le> upvote_count_cache r"
  proof -
    have a: "\<forall>r \<in> set (posts s). p_id r = p_id p \<longrightarrow> 0 \<le> upvote_count_cache r"
      using unique_row [OF d p] nonneg by auto
    have b: "\<forall>r \<in> set (posts ?b). p_id r = p_id p \<longrightarrow> 0 \<le> upvote_count_cache r"
      unfolding posts_b using a by auto
    have c: "\<forall>r \<in> set (posts s1). p_id r = p_id p \<longrightarrow> 0 \<le> upvote_count_cache r"
      unfolding posts_c using a nonneg by (auto simp: p1)
    have b2: "\<forall>r \<in> set (posts ?b2). p_id r = p_id p \<longrightarrow> 0 \<le> upvote_count_cache r"
      unfolding posts_b2 using c by auto
    have c2: "\<forall>r \<in> set (posts ?c2). p_id r = p_id p \<longrightarrow> 0 \<le> upvote_count_cache r"
      unfolding restored using a .
    have a1: "posts ?a = posts s" and a2: "posts ?a2 = posts s1" by simp_all
    show ?thesis
      using a b c b2 c2 a1 a2 s1c by (simp del: posts_upvotes_add posts_upvotes_remove posts_update_post_row)
  qed
  show ?thesis
    using row1 off restored nn tr by (simp del: posts_upvotes_add posts_upvotes_remove posts_update_post_row)
qed


theorem toggle_on_off_restores_witness:
  "fst (toggle_post_upvote forum notice 2) = Inr (True, ''Post upvoted.'')
   \<and> fst (toggle_post_upvote (last (snd (toggle_post_upvote forum notice 2)))
            (notice\<lparr>p_upvotes := [1, 2], upvote_count_cache := 2\<rparr>) 2)
       = Inr (False, ''Upvote removed.'')
   \<and> posts (last (snd (toggle_post_upvote (last (snd (toggle_post_upvote forum notice 2)))
                          (notice\<lparr>p_upvotes := [1, 2], upvote_count_cache := 2\<rparr>) 2)))
       = [notice, minutes, ledger]"
proof -
  have ok: "fst (toggle_post_upvote forum notice 2) = Inr (True, ''Post upvoted.'')"
    by (simp add: toggle_defs post_defs ex_defs)
  have h: "notice \<in> set (posts forum)" "distinct (map p_id (posts forum))"
    "2 \<notin> set (p_upvotes notice)" "0 \<le> upvote_count_cache notice"
    by (simp_all add: post_defs ex_defs)
  have p1: "notice\<lparr>p_upvotes := [1, 2], upvote_count_cache := 2\<rparr>
              = notice\<lparr>p_upvotes := p_upvotes notice @ [2],
                       upvote_count_cache := upvote_count_cache notice + 1\<rparr>"
    by (simp add: notice_def)
  have ps: "posts forum = [notice, minutes, ledger]"
    by (simp add: forum_def mk_state_def)
  show ?thesis
    using toggle_on_off_restores [OF h ok refl p1] ok ps by simp
qed

text \<open>
  With no truthy value cached under the user's membership key, a user who holds no
  approved Membership row in the post's community and is not its creator is refused, and
  the tables are left as they are.
\<close>

lemma toggle_refuses_without_truthy_entry:
  assumes "\<not> approved_member s u (p_community p)"
    and "post_community s p = Some c" and "creator_id c \<noteq> u"
    and "\<And>v. cache_membership_status s (p_community p, u) = Some v \<Longrightarrow> \<not> truthy v"
  shows "toggle_post_upvote s p u
           = (Inr (False, ''You must be a member of this community to upvote posts.''),
              [snd (load_is_member s (p_community p) u)])
         \<and> posts (last (snd (toggle_post_upvote s p u))) = posts s
         \<and> memberships (last (snd (toggle_post_upvote s p u))) = memberships s
         \<and> communities (last (snd (toggle_post_upvote s p u))) = communities s"
proof -
  have "\<not> truthy (fst (load_is_member s (p_community p) u))"
    using assms(1,4) by (simp add: load_is_member_def Let_def split: option.splits)
  then have "toggle_post_upvote s p u
           = (Inr (False, ''You must be a member of this community to upvote posts.''),
              [snd (load_is_member s (p_community p) u)])"
    using assms(2,3) by (simp add: toggle_post_upvote_def split_beta)
  then show ?thesis by simp
qed

text \<open>
  C10 at an input where it fails. User 5 holds no Membership row in the open community
  and is not its creator. The user asks for their membership status: the view answers
  "not a member" and caches that dictionary under the membership key. The user then
  upvotes the community's public post: \<open>toggle_post_upvote\<close> finds the dictionary under
  the key, takes it for a positive verdict, and adds the upvote.
\<close>

theorem toggle_admits_cached_non_member:
  "\<not> approved_member forum 5 (p_community notice)
   \<and> post_community forum notice = Some club \<and> creator_id club \<noteq> 5
   \<and> cache_membership_status forum (p_community notice, 5) = None
   \<and> fst (membership_status forum (Some 5) club) = StatusBody (CachedStatusData False None None)
   \<and> fst (toggle_post_upvote (snd (membership_status forum (Some 5) club)) notice 5)
       = Inr (True, ''Post upvoted.'')
   \<and> posts (last (snd (toggle_post_upvote (snd (membership_status forum (Some 5) club)) notice 5)))
       = [notice\<lparr>p_upvotes := [1, 5], upvote_count_cache := 2\<rparr>, minutes, ledger]
   \<and> fst (toggle_post_upvote forum notice 5)
       = Inr (False, ''You must be a member of this community to upvote posts.'')"
  by (simp add: membership_status_def objects_get_def toggle_defs post_defs ex_defs)

section \<open>The creator\<close>

lemma unique_together_filter:
  assumes "unique_together rows"
  shows "length (filter (\<lambda>m. m_user m = u \<and> m_community m = c \<and> Q m) rows) \<le> 1"
  using assms unfolding unique_together_def
proof (induction rows)
  case Nil
  then show ?case by simp
next
  case (Cons x xs)
  show ?case
  proof (cases "m_user x = u \<and> m_community x = c \<and> Q x")
    case True
    have "filter (\<lambda>m. m_user m = u \<and> m_community m = c \<and> Q m) xs = []"
    proof (rule ccontr)
      assume "filter (\<lambda>m. m_user m = u \<and> m_community m = c \<and> Q m) xs \<noteq> []"
      then obtain y where "y \<in> set xs" "m_user y = u" "m_community y = c"
        by (auto simp: filter_empty_conv)
      with True Cons.prems show False by (force simp: image_iff)
    qed
    with True show ?thesis by simp
  next
    case False
    from Cons have "length (filter (\<lambda>m. m_user m = u \<and> m_community m = c \<and> Q m) xs) \<le> 1"
      by simp
    with False show ?thesis by auto
  qed
qed

lemma find_filter_hd:
  assumes "filter P rows = x # xs"
  shows "find P rows = Some x"
  using assms by (induction rows) (auto split: if_splits)

lemma objects_get_unique:
  assumes "unique_together rows"
  shows "objects_get (\<lambda>m. m_user m = u \<and> m_community m = c \<and> Q m) rows
           = (case find (\<lambda>m. m_user m = u \<and> m_community m = c \<and> Q m) rows of
                None \<Rightarrow> DoesNotExist | Some m \<Rightarrow> Got m)"
proof -
  let ?P = "\<lambda>m. m_user m = u \<and> m_community m = c \<and> Q m"
  have le: "length (filter ?P rows) \<le> 1" using unique_together_filter [OF assms] .
  show ?thesis
  proof (cases "filter ?P rows")
    case Nil
    then have "find ?P rows = None" by (simp add: find_None_iff filter_empty_conv)
    with Nil show ?thesis by (simp add: objects_get_def)
  next
    case (Cons x xs)
    with le have xs: "xs = []" by simp
    have "find ?P rows = Some x"
      using Cons by (rule find_filter_hd)
    with Cons xs show ?thesis by (simp add: objects_get_def)
  qed
qed


lemma objects_get_unique_key:
  assumes "unique_together rows"
  shows "objects_get (\<lambda>m. m_user m = u \<and> m_community m = c) rows
           = (case find (\<lambda>m. m_user m = u \<and> m_community m = c) rows of
                None \<Rightarrow> DoesNotExist | Some m \<Rightarrow> Got m)"
  using objects_get_unique [OF assms, of u c "\<lambda>_. True"] by simp

text \<open>
  C4, as the code has it. For the creator of a community the permission checks
  (\<open>is_community_admin\<close>, \<open>is_community_member\<close>) answer yes and the serializer
  fields answer member, approved and admin, whatever Membership rows and cache entries
  there are, and the store is left as it is; the upvote toggle does not refuse the creator.
  The post visibility paths do not consult the creator reference.
\<close>

theorem creator_resolution:
  "is_community_admin s (Some (creator_id c)) c
   \<and> is_community_member s (Some (creator_id c)) c
   \<and> get_is_member s (Some (creator_id c)) c = (True, s)
   \<and> get_membership_status s (Some (creator_id c)) c = (Inr (Some Approved), s)
   \<and> get_membership_role s (Some (creator_id c)) c = (Inr (Some RoleAdmin), s)
   \<and> (post_community s p = Some c \<longrightarrow>
        fst (toggle_post_upvote s p (creator_id c))
          \<noteq> Inr (False, ''You must be a member of this community to upvote posts.''))"
  by (auto simp: is_community_admin_def is_community_member_def get_is_member_def
      get_membership_status_def get_membership_role_def toggle_post_upvote_def Let_def
      split_beta split: option.splits)

theorem creator_resolution_witness:
  "is_community_admin bare (Some 1) lodge
   \<and> get_membership_status bare (Some 1) lodge = (Inr (Some Approved), bare)
   \<and> get_membership_role bare (Some 1) lodge = (Inr (Some RoleAdmin), bare)
   \<and> fst (toggle_post_upvote bare minutes 1) = Inr (True, ''Post upvoted.'')"
proof -
  have c: "creator_id lodge = 1" by (simp add: ex_defs)
  have pc: "post_community bare minutes = Some lodge"
    by (simp add: post_community_def community_by_id_def bare_def post_defs ex_defs)
  have t: "fst (toggle_post_upvote bare minutes 1) = Inr (True, ''Post upvoted.'')"
    by (simp add: toggle_defs bare_def post_defs ex_defs)
  show ?thesis
    using creator_resolution [of bare lodge minutes] c pc t by simp
qed

text \<open>
  C4 as stated fails at the post visibility call site: the membership lookup of
  \<open>retrieve\<close> answers "not a member, not an admin" for the creator of the private
  community when the creator holds no Membership row.
\<close>

theorem retrieve_ignores_creator:
  "creator_id lodge = 1
   \<and> isMember (spec_resolve bare 1 lodge)
   \<and> retrieve_membership bare 1 lodge = Inr (False, False)"
  by (simp add: spec_resolve_def retrieve_membership_def objects_get_def bare_def ex_defs)

text \<open>
  C5, as the code has it. Post-creation authorization of the creator (no cached verdict
  for the pair) does not require a Membership row: it succeeds with the creator's row when
  there is one and leaves the table as it is, and when there is none it creates the row
  with role admin and status approved and succeeds with it. The serializer's membership
  resolution for the creator writes nothing.
\<close>

theorem creator_post_creation:
  assumes "cache_post_creation_permission s (c_id c, creator_id c) = None"
    and "unique_together (memberships s)"
  shows "(case find (\<lambda>m. m_user m = creator_id c \<and> m_community m = c_id c) (memberships s) of
            Some m \<Rightarrow>
              fst (validate_post_creation s (creator_id c) c) = Inr (True, m)
              \<and> memberships (snd (validate_post_creation s (creator_id c) c)) = memberships s
          | None \<Rightarrow>
              fst (validate_post_creation s (creator_id c) c)
                = Inr (True, \<lparr>m_user = creator_id c, m_community = c_id c,
                               m_role = RoleAdmin, m_status = Approved\<rparr>)
              \<and> memberships (snd (validate_post_creation s (creator_id c) c))
                  = memberships s @ [\<lparr>m_user = creator_id c, m_community = c_id c,
                                       m_role = RoleAdmin, m_status = Approved\<rparr>])
         \<and> snd (get_is_member s (Some (creator_id c)) c) = s
         \<and> snd (get_membership_status s (Some (creator_id c)) c) = s
         \<and> snd (get_membership_role s (Some (creator_id c)) c) = s"
  using assms(1) objects_get_unique_key [OF assms(2), of "creator_id c" "c_id c"]
  by (auto simp: validate_post_creation_def Let_def get_is_member_def get_membership_status_def
      get_membership_role_def split: option.splits)

theorem creator_post_creation_witness:
  "fst (validate_post_creation bare 1 lodge) = Inr (True, admin_row 1 2)
   \<and> memberships (snd (validate_post_creation bare 1 lodge)) = [admin_row 1 2]
   \<and> fst (validate_post_creation campus 1 lodge) = Inr (True, admin_row 1 2)
   \<and> memberships (snd (validate_post_creation campus 1 lodge)) = [admin_row 1 1, admin_row 1 2]"
proof -
  have c: "creator_id lodge = 1" "c_id lodge = 2" by (simp_all add: ex_defs)
  have h: "cache_post_creation_permission bare (c_id lodge, creator_id lodge) = None"
    "unique_together (memberships bare)"
    "cache_post_creation_permission campus (c_id lodge, creator_id lodge) = None"
    "unique_together (memberships campus)"
    by (simp_all add: bare_def ex_defs unique_together_def)
  have f: "find (\<lambda>m. m_user m = creator_id lodge \<and> m_community m = c_id lodge) (memberships bare) = None"
    "find (\<lambda>m. m_user m = creator_id lodge \<and> m_community m = c_id lodge) (memberships campus)
       = Some (admin_row 1 2)"
    "memberships bare = []" "memberships campus = [admin_row 1 1, admin_row 1 2]"
    by (simp_all add: bare_def ex_defs)
  show ?thesis
    using creator_post_creation [OF h(1,2)] creator_post_creation [OF h(3,4)] f c
    by (simp add: admin_row_def)
qed

text \<open>
  C5 as stated fails: on a store with no Membership row, post-creation authorization of
  the creator persists a Membership row whose user is the creator.
\<close>

theorem post_creation_creates_creator_row:
  "creator_id lodge = 1
   \<and> memberships bare = []
   \<and> fst (validate_post_creation bare 1 lodge) = Inr (True, admin_row 1 2)
   \<and> memberships (snd (validate_post_creation bare 1 lodge)) = [admin_row 1 2]"
  by (simp add: validate_post_creation_def objects_get_def membership_create_def bare_def ex_defs)

section \<open>The member count\<close>

text \<open>
  C6 at two inputs. User 5 asks to join a community that requires approval and has no
  approved member: the receiver stores the approved count 0 in the counter field, and
  \<open>Community.member_count\<close>, finding the field at 0, counts every row and answers 1.
  User 5 withdraws a pending request from a community with two approved members: the
  receiver stores 2, then \<open>leave_community\<close> overwrites the field with the count it
  had loaded minus one, and the exposed count is 1.
\<close>

theorem member_count_not_approved_count:
  "community_by_id (snd (join_community hall 5 annex)) 3 = Some annex
   \<and> memberships (snd (join_community hall 5 annex)) = [pending_row 5 3]
   \<and> approved_count (snd (join_community hall 5 annex)) 3 = 0
   \<and> member_count (snd (join_community hall 5 annex)) annex = 1
   \<and> fst (leave_community court 5 guild) = Inr (True, ''You have successfully left this community.'')
   \<and> approved_count (snd (leave_community court 5 guild)) 4 = 2
   \<and> map member_count_cache (communities (snd (leave_community court 5 guild))) = [1]
   \<and> map (member_count (snd (leave_community court 5 guild)))
         (communities (snd (leave_community court 5 guild))) = [1]"
  by (simp add: join_community_def leave_community_def membership_create_def membership_delete_def
      update_community_member_count_def update_community_row_def approved_count_def
      member_count_def community_by_id_def objects_get_def leave_cache_invalidation_def
      hall_def annex_def court_def guild_def pending_row_def ex_defs)

section \<open>The locked update\<close>




section \<open>Post visibility\<close>

lemma community_by_id_c_id:
  assumes "community_by_id s i = Some c"
  shows "c_id c = i"
  using assms unfolding community_by_id_def by (auto simp: find_Some_iff)

lemma in_db_member_communities:
  "cid \<in> set (db_member_communities s u) \<longleftrightarrow> approved_member s u cid"
  by (auto simp: db_member_communities_def approved_member_def)

lemma find_None_rows:
  "find P rows = None \<longleftrightarrow> \<not> (\<exists>m \<in> set rows. P m)"
  by (auto simp: find_None_iff)

lemma find_Some_rows:
  assumes "find P rows = Some m"
  shows "P m" and "m \<in> set rows"
  using assms by (auto simp: find_Some_iff)

lemma unique_row_membership:
  assumes "unique_together rows" and "m \<in> set rows" and "m' \<in> set rows"
    and "m_user m' = m_user m" and "m_community m' = m_community m"
  shows "m' = m"
proof -
  have "inj_on (\<lambda>m. (m_user m, m_community m)) (set rows)"
    using assms(1) by (simp add: unique_together_def distinct_map)
  then show ?thesis using assms(2-5) by (auto dest: inj_onD)
qed

lemma rows_resolve_member:
  "isMember (rows_resolve s u c) \<longleftrightarrow> approved_member s u (c_id c)"
proof (cases "find (\<lambda>m. m_user m = u \<and> m_community m = c_id c \<and> m_status m = Approved) (memberships s)")
  case None
  then have r: "rows_resolve s u c = \<lparr>isMember = False, res_status = None, res_role = None\<rparr>"
    by (simp add: rows_resolve_def)
  from None have "\<not> approved_member s u (c_id c)"
    unfolding find_None_rows approved_member_def by simp
  with r show ?thesis by simp
next
  case (Some m)
  from find_Some_rows [OF Some] show ?thesis
    using Some by (auto simp: rows_resolve_def approved_member_def)
qed

lemma rows_resolve_admin:
  assumes "unique_together (memberships s)"
  shows "res_role (rows_resolve s u c) = Some RoleAdmin \<longleftrightarrow> c_id c \<in> set (db_admin_communities s u)"
proof (cases "find (\<lambda>m. m_user m = u \<and> m_community m = c_id c \<and> m_status m = Approved) (memberships s)")
  case None
  then have r: "rows_resolve s u c = \<lparr>isMember = False, res_status = None, res_role = None\<rparr>"
    by (simp add: rows_resolve_def)
  from None have "c_id c \<notin> set (db_admin_communities s u)"
    unfolding find_None_rows db_admin_communities_def by auto
  with r show ?thesis by simp
next
  case (Some m)
  note m = find_Some_rows [OF Some]
  have "c_id c \<in> set (db_admin_communities s u) \<longleftrightarrow> m_role m = RoleAdmin"
  proof
    assume "c_id c \<in> set (db_admin_communities s u)"
    then obtain m' where m': "m' \<in> set (memberships s)" "m_user m' = u" "m_community m' = c_id c"
      "m_role m' = RoleAdmin"
      by (auto simp: db_admin_communities_def)
    with unique_row_membership [OF assms m(2) m'(1)] m(1) show "m_role m = RoleAdmin" by simp
  next
    assume "m_role m = RoleAdmin"
    with m show "c_id c \<in> set (db_admin_communities s u)"
      by (force simp: db_admin_communities_def)
  qed
  with Some show ?thesis by (simp add: rows_resolve_def)
qed

lemma admin_is_member:
  "cid \<in> set (db_admin_communities s u) \<Longrightarrow> cid \<in> set (db_member_communities s u)"
  by (auto simp: db_admin_communities_def db_member_communities_def)

lemma get_post_queryset_user:
  "fst (get_post_queryset s (Some u) community_slug) =
     remdups (filter (\<lambda>p. public_communities_posts s p
                           \<or> member_communities_posts (fst (working_lists s u community_slug)) p
                           \<or> admin_communities_posts (snd (working_lists s u community_slug)) p)
                (slug_filter s community_slug))"
  by (simp add: get_post_queryset_def working_lists_def Let_def split_beta)

lemma load_member_state [simp]:
  "memberships (snd (load_member_communities s u)) = memberships s"
  "communities (snd (load_member_communities s u)) = communities s"
  "posts (snd (load_member_communities s u)) = posts s"
  "cache_user_admin_memberships (snd (load_member_communities s u)) = cache_user_admin_memberships s"
  by (simp_all add: load_member_communities_def Let_def split: option.splits)

lemma load_admin_state [simp]:
  "memberships (snd (load_admin_communities s u)) = memberships s"
  "communities (snd (load_admin_communities s u)) = communities s"
  "posts (snd (load_admin_communities s u)) = posts s"
  by (simp_all add: load_admin_communities_def Let_def split: option.splits)

lemma reconcile_state [simp]:
  "memberships (snd (reconcile s u sl mc ac)) = memberships s"
  "communities (snd (reconcile s u sl mc ac)) = communities s"
  "posts (snd (reconcile s u sl mc ac)) = posts s"
  by (simp_all add: reconcile_def split: option.splits)

lemma get_post_queryset_state [simp]:
  "memberships (snd (get_post_queryset s viewer sl)) = memberships s"
  "communities (snd (get_post_queryset s viewer sl)) = communities s"
  "posts (snd (get_post_queryset s viewer sl)) = posts s"
  by (simp_all add: get_post_queryset_def Let_def split_beta split: option.splits)

lemma db_lists_same_rows:
  assumes "memberships t = memberships s"
  shows "db_member_communities t u = db_member_communities s u"
    and "db_admin_communities t u = db_admin_communities s u"
    and "approved_member t u cid = approved_member s u cid"
  using assms by (simp_all add: db_member_communities_def db_admin_communities_def approved_member_def)

lemma load_member_current:
  assumes "membership_sets_current s u"
  shows "set (fst (load_member_communities s u)) = set (db_member_communities s u)"
  using assms by (simp add: membership_sets_current_def load_member_communities_def Let_def
      split: option.splits)

lemma load_admin_current:
  assumes "membership_sets_current s u"
  shows "set (fst (load_admin_communities (snd (load_member_communities s u)) u))
           = set (db_admin_communities s u)"
proof -
  let ?t = "snd (load_member_communities s u)"
  have "db_admin_communities ?t u = db_admin_communities s u"
    by (rule db_lists_same_rows) simp
  then show ?thesis
    using assms by (simp add: membership_sets_current_def load_admin_communities_def Let_def
        split: option.splits)
qed

lemma reconcile_current:
  assumes "set mc = set (db_member_communities s u)"
  shows "fst (reconcile s u sl mc ac) = (mc, ac)"
  using assms by (simp add: reconcile_def in_db_member_communities split: option.splits)

lemma working_lists_current:
  assumes "membership_sets_current s u"
  shows "set (fst (working_lists s u sl)) = set (db_member_communities s u)"
    and "set (snd (working_lists s u sl)) = set (db_admin_communities s u)"
proof -
  let ?t = "snd (load_member_communities s u)"
  let ?t2 = "snd (load_admin_communities ?t u)"
  let ?mc = "fst (load_member_communities s u)"
  let ?ac = "fst (load_admin_communities ?t u)"
  have "db_member_communities ?t2 u = db_member_communities s u"
    by (rule db_lists_same_rows) simp
  with load_member_current [OF assms] have "set ?mc = set (db_member_communities ?t2 u)" by simp
  from reconcile_current [OF this] have "working_lists s u sl = (?mc, ?ac)"
    by (simp add: working_lists_def Let_def split_beta)
  with load_member_current [OF assms] load_admin_current [OF assms]
  show "set (fst (working_lists s u sl)) = set (db_member_communities s u)"
    and "set (snd (working_lists s u sl)) = set (db_admin_communities s u)"
    by simp_all
qed

text \<open>The working lists at one community.\<close>

lemma load_member_list:
  "fst (load_member_communities s u)
     = (case cache_user_memberships s u of None \<Rightarrow> db_member_communities s u | Some l \<Rightarrow> l)"
  by (simp add: load_member_communities_def Let_def split: option.splits)

lemma load_admin_list:
  "fst (load_admin_communities (snd (load_member_communities s u)) u)
     = (case cache_user_admin_memberships s u of None \<Rightarrow> db_admin_communities s u | Some l \<Rightarrow> l)"
proof -
  have "db_admin_communities (snd (load_member_communities s u)) u = db_admin_communities s u"
    by (rule db_lists_same_rows) simp
  then show ?thesis
    by (simp add: load_admin_communities_def Let_def split: option.splits)
qed

lemma get_by_slug_unique:
  assumes "distinct (map slug cs)" and "c \<in> set cs"
  shows "find (\<lambda>x. slug x = slug c) cs = Some c"
  using assms
proof (induction cs)
  case Nil
  then show ?case by simp
next
  case (Cons x xs)
  then show ?case by (cases "x = c") (auto simp: image_iff)
qed

lemma reconcile_no_slug:
  assumes "\<not> slug_given community_slug"
  shows "fst (reconcile s u community_slug mc ac) = (mc, ac)"
  using assms by (simp add: reconcile_def slug_given_def split: option.splits)

lemma not_member_not_admin:
  assumes "\<not> approved_member s u cid"
  shows "cid \<notin> set (db_admin_communities s u)"
  using assms admin_is_member [of cid s u] by (auto simp: in_db_member_communities)

lemma reconcile_at:
  assumes c: "get_by_slug s sl = Some c" and sl: "sl \<noteq> []"
    and mc: "distinct mc \<or> (c_id c \<in> set mc) = approved_member s u (c_id c)"
    and ac: "(c_id c \<in> set ac) = (c_id c \<in> set (db_admin_communities s u))"
  shows "(c_id c \<in> set (fst (fst (reconcile s u (Some sl) mc ac)))) = approved_member s u (c_id c)"
    and "(c_id c \<in> set (snd (fst (reconcile s u (Some sl) mc ac))))
           = (c_id c \<in> set (db_admin_communities s u))"
proof -
  consider (join) "approved_member s u (c_id c)" "c_id c \<notin> set mc"
    | (prune) "\<not> approved_member s u (c_id c)" "c_id c \<in> set mc"
    | (same) "approved_member s u (c_id c) = (c_id c \<in> set mc)"
    by blast
  then have "(c_id c \<in> set (fst (fst (reconcile s u (Some sl) mc ac)))) = approved_member s u (c_id c)
      \<and> (c_id c \<in> set (snd (fst (reconcile s u (Some sl) mc ac))))
           = (c_id c \<in> set (db_admin_communities s u))"
  proof cases
    case join
    with c sl ac show ?thesis by (simp add: reconcile_def)
  next
    case prune
    with mc have d: "distinct mc" by blast
    from prune(1) ac have "c_id c \<notin> set ac" using not_member_not_admin by blast
    with prune c sl d ac show ?thesis by (simp add: reconcile_def)
  next
    case same
    with c sl ac show ?thesis by (auto simp: reconcile_def)
  qed
  then show "(c_id c \<in> set (fst (fst (reconcile s u (Some sl) mc ac)))) = approved_member s u (c_id c)"
    and "(c_id c \<in> set (snd (fst (reconcile s u (Some sl) mc ac))))
           = (c_id c \<in> set (db_admin_communities s u))"
    by simp_all
qed

lemma working_lists_at:
  assumes p: "p \<in> set (slug_filter s community_slug)" and pc: "post_community s p = Some c"
    and slugs: "distinct (map slug (communities s))"
    and ok: "lists_adequate s (Some u) community_slug (c_id c)"
  shows "(c_id c \<in> set (fst (working_lists s u community_slug))) = approved_member s u (c_id c)"
    and "(c_id c \<in> set (snd (working_lists s u community_slug)))
           = (c_id c \<in> set (db_admin_communities s u))"
proof -
  let ?t = "snd (load_member_communities s u)"
  let ?t2 = "snd (load_admin_communities ?t u)"
  let ?mc = "fst (load_member_communities s u)"
  let ?ac = "fst (load_admin_communities ?t u)"
  have wl: "working_lists s u community_slug = fst (reconcile ?t2 u community_slug ?mc ?ac)"
    by (simp add: working_lists_def Let_def split_beta)
  have rows: "approved_member ?t2 u (c_id c) = approved_member s u (c_id c)"
    "db_admin_communities ?t2 u = db_admin_communities s u"
    by (rule db_lists_same_rows, simp)+
  have ac: "(c_id c \<in> set ?ac) = (c_id c \<in> set (db_admin_communities s u))"
    using ok by (simp add: lists_adequate_def load_admin_list split: option.splits)
  have "(c_id c \<in> set (fst (working_lists s u community_slug))) = approved_member s u (c_id c)
      \<and> (c_id c \<in> set (snd (working_lists s u community_slug)))
           = (c_id c \<in> set (db_admin_communities s u))"
  proof (cases "slug_given community_slug")
    case False
    with ok have "(c_id c \<in> set ?mc) = approved_member s u (c_id c)"
      by (simp add: lists_adequate_def load_member_list in_db_member_communities
          split: option.splits)
    with ac reconcile_no_slug [OF False] show ?thesis by (simp add: wl)
  next
    case True
    then obtain sl where sl: "community_slug = Some sl" "sl \<noteq> []"
      by (auto simp: slug_given_def split: option.splits)
    with p pc have slc: "slug c = sl" by (auto simp: slug_filter_def)
    from pc have "c \<in> set (communities s)"
      unfolding post_community_def community_by_id_def by (rule find_Some_rows)
    from get_by_slug_unique [OF slugs this] have "get_by_slug ?t2 sl = Some c"
      using sl(2) by (simp add: get_by_slug_def slc)
    moreover have "distinct ?mc \<or> (c_id c \<in> set ?mc) = approved_member ?t2 u (c_id c)"
      using ok True
      by (simp add: lists_adequate_def load_member_list in_db_member_communities rows
          split: option.splits)
    moreover have "(c_id c \<in> set ?ac) = (c_id c \<in> set (db_admin_communities ?t2 u))"
      using ac rows by simp
    ultimately show ?thesis
      using reconcile_at [of ?t2 sl c ?mc u ?ac] sl rows wl by simp
  qed
  then show "(c_id c \<in> set (fst (working_lists s u community_slug))) = approved_member s u (c_id c)"
    and "(c_id c \<in> set (snd (working_lists s u community_slug)))
           = (c_id c \<in> set (db_admin_communities s u))"
    by simp_all
qed

text \<open>The three clauses against the table.\<close>

lemma clauses_rows_visible:
  assumes pc: "post_community s p = Some c" and uniq: "unique_together (memberships s)"
    and mc: "(c_id c \<in> set mc) = approved_member s u (c_id c)"
    and ac: "(c_id c \<in> set ac) = (c_id c \<in> set (db_admin_communities s u))"
  shows "(public_communities_posts s p \<or> member_communities_posts mc p \<or> admin_communities_posts ac p)
           \<longleftrightarrow> rows_visible s (Some u) c p"
proof -
  have cid: "c_id c = p_community p"
    using pc community_by_id_c_id by (simp add: post_community_def)
  have adm: "res_role (rows_resolve s u c) = Some RoleAdmin \<longleftrightarrow> p_community p \<in> set ac"
    using rows_resolve_admin [OF uniq, of u c] ac cid by simp
  have mem: "isMember (rows_resolve s u c) \<longleftrightarrow> p_community p \<in> set mc"
    using rows_resolve_member [of s u c] mc cid by simp
  show ?thesis
  proof (cases "p_community p \<in> set ac")
    case True
    with adm show ?thesis
      by (simp add: rows_visible_def viewer_state_of_def admin_communities_posts_def)
  next
    case notadmin: False
    show ?thesis
    proof (cases "p_community p \<in> set mc")
      case True
      with notadmin adm mem pc show ?thesis
        by (cases "p_visibility p")
          (auto simp: rows_visible_def viewer_state_of_def admin_communities_posts_def
            member_communities_posts_def public_communities_posts_def)
    next
      case False
      with notadmin adm mem pc show ?thesis
        by (auto simp: rows_visible_def viewer_state_of_def admin_communities_posts_def
            member_communities_posts_def public_communities_posts_def)
    qed
  qed
qed

lemma bulk_rows_visible:
  assumes "p \<in> set (slug_filter s community_slug)" and "post_community s p = Some c"
    and "unique_together (memberships s)" and "distinct (map slug (communities s))"
    and "lists_adequate s viewer community_slug (c_id c)"
  shows "p \<in> set (fst (get_post_queryset s viewer community_slug)) \<longleftrightarrow> rows_visible s viewer c p"
proof (cases viewer)
  case None
  with assms(1,2) show ?thesis
    by (simp add: get_post_queryset_def Let_def rows_visible_def viewer_state_of_def
        public_communities_posts_def)
next
  case (Some u)
  with assms(5) have ok: "lists_adequate s (Some u) community_slug (c_id c)" by simp
  from clauses_rows_visible [OF assms(2,3) working_lists_at [OF assms(1,2,4) ok]]
  show ?thesis using assms(1) Some by (simp add: get_post_queryset_user)
qed

lemma spec_visible_rows_visible:
  assumes "\<forall>u. viewer = Some u \<longrightarrow> creator_id c \<noteq> u \<or> res_role (rows_resolve s u c) = Some RoleAdmin"
  shows "spec_visible s viewer c p = rows_visible s viewer c p"
  using assms
  by (cases viewer) (auto simp: spec_visible_def rows_visible_def spec_resolve_def viewer_state_of_def)


lemma bulk_union:
  "set (fst (get_post_queryset s (Some u) community_slug))
     = {q \<in> set (slug_filter s community_slug). public_communities_posts s q}
       \<union> {q \<in> set (slug_filter s community_slug).
            member_communities_posts (fst (working_lists s u community_slug)) q}
       \<union> {q \<in> set (slug_filter s community_slug).
            admin_communities_posts (snd (working_lists s u community_slug)) q}"
  unfolding get_post_queryset_user by auto

lemmas query_defs = get_post_queryset_def slug_filter_def load_member_communities_def
  load_admin_communities_def reconcile_def get_by_slug_def approved_member_def
  db_member_communities_def db_admin_communities_def public_communities_posts_def
  member_communities_posts_def admin_communities_posts_def post_community_def
  community_by_id_def

lemmas table_defs = spec_visible_def rows_visible_def spec_resolve_def rows_resolve_def
  viewer_state_of_def

text \<open>
  C1, as the code has it. Take a post within the scope of the query (every post when no
  slug is given, the posts of that community otherwise) and its community, in a store
  whose Membership rows are unique per user and community and whose community slugs are
  unique. Of the viewer's cached membership id lists the query needs this much: the admin
  list, if cached, is right about the post's community; the member list, if cached, is
  right about it when no slug is given, and with a slug it may be stale, since the query
  then re-checks the membership in the store and corrects its working list. Then the post
  is in the result of \<open>get_post_queryset\<close> exactly when the decision table of section
  4.4 allows it for the viewer state resolved from the approved Membership rows alone,
  without the creator rule. So the result agrees with the table of section 4.4 for the
  unauthenticated viewer and for every viewer who is not the community's creator or holds
  an approved admin row. For the unauthenticated viewer the result is the public posts of
  non-private communities; for a user it is the union of the three clauses over the two
  working id lists, without duplicates, and these list the communities of the user's
  approved and approved-admin rows when the cached lists are absent or current.
\<close>

theorem bulk_query_matches_table:
  assumes "p \<in> set (slug_filter s community_slug)" and "post_community s p = Some c"
    and "unique_together (memberships s)" and "distinct (map slug (communities s))"
    and "lists_adequate s viewer community_slug (c_id c)"
  shows "(p \<in> set (fst (get_post_queryset s viewer community_slug)) \<longleftrightarrow> rows_visible s viewer c p)
       \<and> ((\<forall>u. viewer = Some u \<longrightarrow>
               creator_id c \<noteq> u \<or> res_role (rows_resolve s u c) = Some RoleAdmin)
            \<longrightarrow> (p \<in> set (fst (get_post_queryset s viewer community_slug))
                   \<longleftrightarrow> spec_visible s viewer c p))
       \<and> (viewer = None \<longrightarrow>
             fst (get_post_queryset s viewer community_slug)
               = filter (public_communities_posts s) (slug_filter s community_slug))
       \<and> (\<forall>u. viewer = Some u \<longrightarrow>
             set (fst (get_post_queryset s viewer community_slug))
               = {q \<in> set (slug_filter s community_slug). public_communities_posts s q}
                 \<union> {q \<in> set (slug_filter s community_slug).
                      member_communities_posts (fst (working_lists s u community_slug)) q}
                 \<union> {q \<in> set (slug_filter s community_slug).
                      admin_communities_posts (snd (working_lists s u community_slug)) q}
             \<and> distinct (fst (get_post_queryset s viewer community_slug))
             \<and> (membership_sets_current s u \<longrightarrow>
                  set (fst (working_lists s u community_slug)) = set (db_member_communities s u)
                  \<and> set (snd (working_lists s u community_slug)) = set (db_admin_communities s u)))"
proof (intro conjI impI allI)
  show rows: "p \<in> set (fst (get_post_queryset s viewer community_slug)) \<longleftrightarrow> rows_visible s viewer c p"
    using assms by (rule bulk_rows_visible)
  show "p \<in> set (fst (get_post_queryset s viewer community_slug)) \<longleftrightarrow> spec_visible s viewer c p"
    if "\<forall>u. viewer = Some u \<longrightarrow>
          creator_id c \<noteq> u \<or> res_role (rows_resolve s u c) = Some RoleAdmin"
    using rows spec_visible_rows_visible [OF that] by simp
  show "fst (get_post_queryset s viewer community_slug)
          = filter (public_communities_posts s) (slug_filter s community_slug)"
    if "viewer = None"
    using that by (simp add: get_post_queryset_def Let_def)
  show "set (fst (get_post_queryset s viewer community_slug))
          = {q \<in> set (slug_filter s community_slug). public_communities_posts s q}
            \<union> {q \<in> set (slug_filter s community_slug).
                 member_communities_posts (fst (working_lists s u community_slug)) q}
            \<union> {q \<in> set (slug_filter s community_slug).
                 admin_communities_posts (snd (working_lists s u community_slug)) q}"
    if "viewer = Some u" for u
    using that bulk_union [of s u community_slug] by simp
  show "distinct (fst (get_post_queryset s viewer community_slug))" if "viewer = Some u" for u
    using that by (simp add: get_post_queryset_user)
  show "set (fst (working_lists s u community_slug)) = set (db_member_communities s u)"
    if "viewer = Some u" "membership_sets_current s u" for u
    using that(2) by (rule working_lists_current)
  show "set (snd (working_lists s u community_slug)) = set (db_admin_communities s u)"
    if "viewer = Some u" "membership_sets_current s u" for u
    using that(2) by (rule working_lists_current)
qed

theorem bulk_query_matches_table_witness:
  "minutes \<in> set (fst (get_post_queryset stale (Some 3) (Some ''lodge'')))
   \<and> spec_visible stale (Some 3) lodge minutes
   \<and> cache_user_memberships stale 3 = Some []
   \<and> ledger \<notin> set (fst (get_post_queryset stale (Some 3) (Some ''lodge'')))
   \<and> \<not> spec_visible stale (Some 3) lodge ledger
   \<and> minutes \<in> set (fst (get_post_queryset forum (Some 3) None))
   \<and> set (fst (get_post_queryset forum (Some 3) None)) = {notice, minutes}"
proof -
  have in1: "minutes \<in> set (slug_filter stale (Some ''lodge''))"
    and in2: "ledger \<in> set (slug_filter stale (Some ''lodge''))"
    and in3: "minutes \<in> set (slug_filter forum None)"
    by (simp_all add: query_defs stale_def post_defs ex_defs)
  have pc: "post_community stale minutes = Some lodge" "post_community stale ledger = Some lodge"
    "post_community forum minutes = Some lodge"
    by (simp_all add: query_defs stale_def post_defs ex_defs)
  have u: "unique_together (memberships stale)" "unique_together (memberships forum)"
    by (simp_all add: unique_together_def stale_def post_defs ex_defs)
  have sl: "distinct (map slug (communities stale))" "distinct (map slug (communities forum))"
    by (simp_all add: stale_def post_defs ex_defs)
  have v: "lists_adequate stale (Some 3) (Some ''lodge'') (c_id lodge)"
    "lists_adequate forum (Some 3) None (c_id lodge)"
    "membership_sets_current forum 3"
    by (simp_all add: lists_adequate_def slug_given_def membership_sets_current_def
        db_admin_communities_def stale_def post_defs ex_defs)
  have r: "rows_visible stale (Some 3) lodge minutes" "\<not> rows_visible stale (Some 3) lodge ledger"
    "rows_visible forum (Some 3) lodge minutes" "creator_id lodge \<noteq> 3"
    "cache_user_memberships stale 3 = Some []"
    by (simp_all add: table_defs stale_def post_defs ex_defs)
  have clauses: "{q \<in> set (slug_filter forum None). public_communities_posts forum q} = {notice}"
    "{q \<in> set (slug_filter forum None).
        member_communities_posts (fst (working_lists forum 3 None)) q} = {minutes}"
    "{q \<in> set (slug_filter forum None).
        admin_communities_posts (snd (working_lists forum 3 None)) q} = {}"
    by (auto simp: working_lists_def query_defs post_defs ex_defs)
  show ?thesis
    using bulk_query_matches_table [OF in1 pc(1) u(1) sl(1) v(1)]
      bulk_query_matches_table [OF in2 pc(2) u(1) sl(1) v(1)]
      bulk_query_matches_table [OF in3 pc(3) u(2) sl(2) v(2)]
      r clauses
    by auto
qed

text \<open>
  C1 as stated fails at three inputs. The creator of the private community, holding no
  Membership row, is allowed its members-only post by the table and does not get it from
  the query for that community. User 1 holds an approved admin row of the private
  community while the admin id list cached for them is empty: the table allows the
  admin-only post, the query for that community leaves it out. User 3 is an approved
  member of the private community while the member id list cached for them is empty: the
  query for that community corrects its working list and returns the members-only post,
  the query without a slug leaves it out.
\<close>

theorem bulk_query_misses_creator_and_stale_sets:
  "spec_visible bare (Some 1) lodge minutes
   \<and> minutes \<notin> set (fst (get_post_queryset bare (Some 1) (Some ''lodge'')))
   \<and> spec_visible lagging (Some 1) lodge ledger
   \<and> ledger \<notin> set (fst (get_post_queryset lagging (Some 1) (Some ''lodge'')))
   \<and> spec_visible stale (Some 3) lodge minutes
   \<and> minutes \<in> set (fst (get_post_queryset stale (Some 3) (Some ''lodge'')))
   \<and> minutes \<notin> set (fst (get_post_queryset stale (Some 3) None))"
  by (simp add: query_defs table_defs stale_def lagging_def bare_def post_defs ex_defs)

subsection \<open>Retrieving one post\<close>
















end
